theory Spec2Isabelle
  imports Main "HOL-Library.Word"
begin

section \<open>JavaScript strings and numbers\<close>

text \<open>
  A JavaScript string is a sequence of UTF-16 code units; \<open>charCodeAt\<close> reads one of them
  as a number between 0 and 65535. ASCII literals of the script are written \<open>js ''...''\<close>.
\<close>

type_synonym unidad = "16 word"
type_synonym cadena = "unidad list"

definition js :: "string \<Rightarrow> cadena" where
  "js s = map (\<lambda>c. of_nat (of_char c)) s"

definition cero :: unidad where
  "cero = 48"

text \<open>\<open>'0'.repeat(n)\<close>, for a count that is a non-negative integer.\<close>

definition repeat0 :: "nat \<Rightarrow> cadena" where
  "repeat0 n = replicate n cero"

text \<open>\<open>s.startsWith(p)\<close>: false when \<open>p\<close> is longer than \<open>s\<close>.\<close>

definition startsWith :: "cadena \<Rightarrow> cadena \<Rightarrow> bool" where
  "startsWith s p \<longleftrightarrow> take (length p) s = p"

text \<open>\<open>s.padStart(n, '0')\<close> and friends, for a one-character filler.\<close>

definition padStart :: "nat \<Rightarrow> unidad \<Rightarrow> cadena \<Rightarrow> cadena" where
  "padStart n relleno s = (if n \<le> length s then s else replicate (n - length s) relleno @ s)"

text \<open>The digit characters \<open>0..9\<close>, \<open>a..z\<close> that \<open>Number.prototype.toString\<close> emits.\<close>

definition digito :: "nat \<Rightarrow> unidad" where
  "digito d = of_nat (if d < 10 then 48 + d else 87 + d)"

text \<open>\<open>n.toString(16)\<close> and \<open>n.toString()\<close> for a non-negative integer \<open>n\<close>.\<close>

fun toString16 :: "nat \<Rightarrow> cadena" where
  "toString16 n = (if n < 16 then [digito n] else toString16 (n div 16) @ [digito (n mod 16)])"

fun toString10 :: "nat \<Rightarrow> cadena" where
  "toString10 n = (if n < 10 then [digito n] else toString10 (n div 10) @ [digito (n mod 10)])"

declare toString16.simps [simp del]
declare toString10.simps [simp del]

text \<open>
  The conversion to a signed 32-bit integer that the bitwise operators \<open><<\<close> and \<open>&\<close>
  apply to their operands and results.
\<close>

definition ToInt32 :: "int \<Rightarrow> int" where
  "ToInt32 x = (x + 2 ^ 31) mod 2 ^ 32 - 2 ^ 31"


section \<open>JSON.stringify\<close>

text \<open>
  The values that the script serialises: block payloads are object literals holding strings,
  integers and nested objects. Object properties keep their insertion order. This holds
  for the objects the script builds: their property names are words, not integers (an
  integer-like name would be listed first), and their numbers are integers below
  \<open>10\<^sup>2\<^sup>1\<close>, which are printed digit by digit (larger ones are printed with an
  exponent).
\<close>

datatype json =
    JNull
  | JBool bool
  | JNum int
  | JStr cadena
  | JArr "json list"
  | JObj "(cadena \<times> json) list"

definition es_sustituto_alto :: "unidad \<Rightarrow> bool" where
  "es_sustituto_alto c \<longleftrightarrow> 0xD800 \<le> c \<and> c \<le> 0xDBFF"

definition es_sustituto_bajo :: "unidad \<Rightarrow> bool" where
  "es_sustituto_bajo c \<longleftrightarrow> 0xDC00 \<le> c \<and> c \<le> 0xDFFF"

text \<open>The escape \<open>\uXXXX\<close> with four lower-case hexadecimal digits.\<close>

definition escape_unicode :: "unidad \<Rightarrow> cadena" where
  "escape_unicode c = [0x5C, 0x75] @ padStart 4 cero (toString16 (unat c))"

text \<open>
  One code unit outside a surrogate pair, as QuoteJSONString writes it: the short escapes
  for backspace, tab, line feed, form feed, carriage return, the double quote and the
  backslash; \<open>\uXXXX\<close> for the other control characters and for a lone surrogate.
\<close>

definition escapar_unidad :: "unidad \<Rightarrow> cadena" where
  "escapar_unidad c =
     (if c = 0x08 then [0x5C, 0x62]
      else if c = 0x09 then [0x5C, 0x74]
      else if c = 0x0A then [0x5C, 0x6E]
      else if c = 0x0C then [0x5C, 0x66]
      else if c = 0x0D then [0x5C, 0x72]
      else if c = 0x22 then [0x5C, 0x22]
      else if c = 0x5C then [0x5C, 0x5C]
      else if c < 0x20 \<or> es_sustituto_alto c \<or> es_sustituto_bajo c then escape_unicode c
      else [c])"

fun escapar :: "cadena \<Rightarrow> cadena" where
  "escapar [] = []"
| "escapar [c] = escapar_unidad c"
| "escapar (c # d # cs) =
     (if es_sustituto_alto c \<and> es_sustituto_bajo d then c # d # escapar cs
      else escapar_unidad c @ escapar (d # cs))"

definition QuoteJSONString :: "cadena \<Rightarrow> cadena" where
  "QuoteJSONString s = [0x22] @ escapar s @ [0x22]"

fun unir :: "cadena \<Rightarrow> cadena list \<Rightarrow> cadena" where
  "unir sep [] = []"
| "unir sep [x] = x"
| "unir sep (x # y # ys) = x @ sep @ unir sep (y # ys)"

fun stringify :: "json \<Rightarrow> cadena" where
  "stringify JNull = js ''null''"
| "stringify (JBool b) = (if b then js ''true'' else js ''false'')"
| "stringify (JNum i) = (if i < 0 then js ''-'' @ toString10 (nat (- i)) else toString10 (nat i))"
| "stringify (JStr s) = QuoteJSONString s"
| "stringify (JArr xs) = js ''['' @ unir (js '','') (map stringify xs) @ js '']''"
| "stringify (JObj kvs) =
     js ''{'' @ unir (js '','') (map (\<lambda>(k, v). QuoteJSONString k @ js '':'' @ stringify v) kvs)
       @ js ''}''"


section \<open>Configuration and global state of the extractor\<close>

text \<open>
  The fields of \<open>CONFIG\<close> and \<open>ESTADO\<close> (SCJN_Extractor_Ultimate.user.js) that the ledger
  and the downloader read or write. Identifiers of the script that contain a non-ASCII
  letter are written without it (\<open>anio\<close>, \<open>tamano\<close>); inside strings the letter is
  given by its code unit.
\<close>

record config =
  version :: cadena
  anio :: nat
  usarBlockchain :: bool
  dificultadProofOfWork :: nat
  carpetaDescarga :: cadena

definition CONFIG :: config where
  "CONFIG = \<lparr> version = js ''2.0.0'', anio = 2025, usarBlockchain = True,
              dificultadProofOfWork = 4, carpetaDescarga = js ''VARIOS_2025_SCJN'' \<rparr>"

text \<open>
  A block object. The object literals of \<open>crearBloqueGenesis\<close> and \<open>agregarBloque\<close> have
  no \<open>hash\<close> property until it is assigned; nothing reads the property before that, and
  the record holds the empty string until then.
\<close>

record bloque =
  index :: nat
  timestamp :: cadena
  data :: json
  previousHash :: cadena
  nonce :: nat
  difficulty :: nat
  hash :: cadena


section \<open>Blockchain: block hash\<close>

text \<open>
  \<open>sha256Sync\<close>: the loop keeps a 32-bit accumulator,
  \<open>hash = ((hash << 5) - hash) + char; hash = hash & hash\<close>, and the result is
  \<open>Math.abs(hash).toString(16).padStart(64, '0')\<close>.
\<close>

fun sha256Sync_bucle :: "int \<Rightarrow> cadena \<Rightarrow> int" where
  "sha256Sync_bucle h [] = h"
| "sha256Sync_bucle h (c # cs) =
     sha256Sync_bucle (ToInt32 (ToInt32 (h * 32) - h + int (unat c))) cs"

definition sha256Sync :: "cadena \<Rightarrow> cadena" where
  "sha256Sync str = padStart 64 cero (toString16 (nat \<bar>sha256Sync_bucle 0 str\<bar>))"

text \<open>
  \<open>calcularHashBloque\<close> serialises five properties of the block, in this order, and
  hashes the text.
\<close>

definition bloqueString :: "bloque \<Rightarrow> cadena" where
  "bloqueString b = stringify (JObj
     [(js ''index'', JNum (int (index b))),
      (js ''timestamp'', JStr (timestamp b)),
      (js ''data'', data b),
      (js ''previousHash'', JStr (previousHash b)),
      (js ''nonce'', JNum (int (nonce b)))])"

definition calcularHashBloque :: "bloque \<Rightarrow> cadena" where
  "calcularHashBloque b = sha256Sync (bloqueString b)"


section \<open>Blockchain: proof of work\<close>

definition maxIteraciones :: nat where
  "maxIteraciones = 1000000"

text \<open>
  The \<open>while\<close> loop of \<open>calcularProofOfWork\<close>. Its state is the block (whose \<open>nonce\<close>
  the loop overwrites), the counter, the last hash computed, and, as an observation of the
  run, the list of the nonces for which a hash has been computed.
\<close>

function pow_bucle :: "cadena \<Rightarrow> bloque \<Rightarrow> nat \<Rightarrow> cadena \<Rightarrow> nat list \<Rightarrow> bloque \<times> nat list" where
  "pow_bucle prefix b n h probados =
     (if n < maxIteraciones then
        (let b' = b\<lparr>nonce := n\<rparr>; h' = calcularHashBloque b' in
         if startsWith h' prefix then (b'\<lparr>hash := h'\<rparr>, probados @ [n])
         else pow_bucle prefix b' (n + 1) h' (probados @ [n]))
      else (b\<lparr>hash := h\<rparr>, probados))"
  by pat_completeness auto
termination
  by (relation "measure (\<lambda>(prefix, b, n, h, probados). maxIteraciones - n)") auto

declare pow_bucle.simps [simp del]

definition calcularProofOfWork :: "bloque \<Rightarrow> bloque" where
  "calcularProofOfWork b = fst (pow_bucle (repeat0 (difficulty b)) b 0 [] [])"

definition nonces_probados :: "bloque \<Rightarrow> nat list" where
  "nonces_probados b = snd (pow_bucle (repeat0 (difficulty b)) b 0 [] [])"


section \<open>Blockchain: genesis, append and validation\<close>

text \<open>
  \<open>crearBloqueGenesis\<close>; the argument \<open>ahora\<close> is the reading of
  \<open>new Date().toISOString()\<close>. The genesis block is hashed once, with nonce 0, and is
  not mined.
\<close>

definition crearBloqueGenesis :: "config \<Rightarrow> cadena \<Rightarrow> bloque" where
  "crearBloqueGenesis cfg ahora =
     (let b = \<lparr> index = 0,
                 timestamp = ahora,
                 data = JObj
                   [(js ''tipo'', JStr (js ''GENESIS'')),
                    (js ''descripcion'', JStr (js ''Inicio de extracci'' @ [0xF3] @ js ''n SCJN 2025'')),
                    (js ''arquitecto'', JStr (js ''G'' @ [0xC9] @ js ''NESIS'')),
                    (js ''agente'', JStr (js ''SCJN Extractor Ultimate v'' @ version cfg)),
                    (js ''a'' @ [0xF1] @ js ''o'', JNum (int (anio cfg)))],
                 previousHash = repeat0 64,
                 nonce = 0,
                 difficulty = dificultadProofOfWork cfg,
                 hash = [] \<rparr>
      in b\<lparr>hash := calcularHashBloque b\<rparr>)"

text \<open>
  The entries of \<open>ESTADO.hashRegistry\<close>, an object used as a dictionary from file names
  to entries: assigning to a key that exists replaces its value in place, assigning to a
  new key adds it at the end.
\<close>

record entrada_hash =
  e_hash :: cadena
  e_tamano :: nat
  e_url :: cadena
  e_expediente :: cadena
  e_timestamp :: cadena

fun asignar :: "'k \<Rightarrow> 'v \<Rightarrow> ('k \<times> 'v) list \<Rightarrow> ('k \<times> 'v) list" where
  "asignar k v [] = [(k, v)]"
| "asignar k v ((k', v') # kvs) = (if k' = k then (k, v) # kvs else (k', v') # asignar k v kvs)"

record estado =
  iniciado :: bool
  archivosDescargados :: nat
  errores :: "json list"
  blockchain :: "bloque list"
  hashRegistry :: "(cadena \<times> entrada_hash) list"
  auditLedger :: "json list"
  tamanoTotalDescargado :: nat
  hashesGenerados :: nat
  bloquesCreados :: nat

definition ESTADO_inicial :: estado where
  "ESTADO_inicial = \<lparr> iniciado = False, archivosDescargados = 0, errores = [],
      blockchain = [], hashRegistry = [], auditLedger = [],
      tamanoTotalDescargado = 0, hashesGenerados = 0, bloquesCreados = 0 \<rparr>"

text \<open>
  The ledger part of \<open>ControladorPrincipal.iniciar\<close>: nothing happens when the system
  already runs; otherwise the genesis block is pushed if the chain is empty. (The interface
  updates and the extraction that follows are not part of the ledger.)
\<close>

definition iniciar :: "config \<Rightarrow> cadena \<Rightarrow> estado \<Rightarrow> estado" where
  "iniciar cfg ahora st =
     (if iniciado st then st
      else
        (let st1 = st\<lparr>iniciado := True\<rparr> in
         if length (blockchain st1) = 0
         then st1\<lparr>blockchain := blockchain st1 @ [crearBloqueGenesis cfg ahora]\<rparr>
         else st1))"

text \<open>
  \<open>agregarBloque\<close>. On an empty chain \<open>blockchain[blockchain.length - 1]\<close> is
  \<open>undefined\<close>, and reading its \<open>hash\<close> raises a TypeError before anything is changed.
\<close>

datatype error_js = TypeError

definition agregarBloque :: "config \<Rightarrow> cadena \<Rightarrow> json \<Rightarrow> estado \<Rightarrow> error_js + bloque \<times> estado" where
  "agregarBloque cfg ahora d st =
     (if blockchain st = [] then Inl TypeError
      else
        (let ultimoBloque = last (blockchain st);
             nuevoBloque = \<lparr> index = length (blockchain st),
                             timestamp = ahora,
                             data = d,
                             previousHash = hash ultimoBloque,
                             nonce = 0,
                             difficulty = dificultadProofOfWork cfg,
                             hash = [] \<rparr>;
             bloqueConHash = calcularProofOfWork nuevoBloque
         in Inr (bloqueConHash,
                 st\<lparr>blockchain := blockchain st @ [bloqueConHash],
                    bloquesCreados := bloquesCreados st + 1\<rparr>)))"

text \<open>A run of appends, each with its clock reading and payload; it stops at the first error.\<close>

fun agregar_todos :: "config \<Rightarrow> (cadena \<times> json) list \<Rightarrow> estado \<Rightarrow> error_js + estado" where
  "agregar_todos cfg [] st = Inr st"
| "agregar_todos cfg ((ahora, d) # resto) st =
     (case agregarBloque cfg ahora d st of
        Inl e \<Rightarrow> Inl e
      | Inr (b, st') \<Rightarrow> agregar_todos cfg resto st')"

text \<open>
  \<open>validarBlockchain\<close>. The three checks that the loop makes on block \<open>i\<close>, in the
  order of the source; the first that fails is the error returned.
\<close>

datatype error_validacion = PreviousHashNoCoincide | HashAlterado | ProofOfWorkInvalido

datatype validacion =
    Valida nat
  | Invalida error_validacion nat

definition validar_bloque :: "bloque \<Rightarrow> bloque \<Rightarrow> error_validacion option" where
  "validar_bloque bloqueActual bloqueAnterior =
     (if previousHash bloqueActual \<noteq> hash bloqueAnterior then Some PreviousHashNoCoincide
      else if hash bloqueActual \<noteq> calcularHashBloque bloqueActual then Some HashAlterado
      else if \<not> startsWith (hash bloqueActual) (repeat0 (difficulty bloqueActual))
        then Some ProofOfWorkInvalido
      else None)"

function validar_bucle :: "bloque list \<Rightarrow> nat \<Rightarrow> validacion" where
  "validar_bucle cadena_bloques i =
     (if i < length cadena_bloques then
        (case validar_bloque (cadena_bloques ! i) (cadena_bloques ! (i - 1)) of
           Some e \<Rightarrow> Invalida e i
         | None \<Rightarrow> validar_bucle cadena_bloques (i + 1))
      else Valida (length cadena_bloques))"
  by pat_completeness auto
termination
  by (relation "measure (\<lambda>(cadena_bloques, i). length cadena_bloques - i)") auto

declare validar_bucle.simps [simp del]

definition validarBlockchain :: "bloque list \<Rightarrow> validacion" where
  "validarBlockchain cadena_bloques = validar_bucle cadena_bloques 1"

text \<open>The violation, if any, that the checks find at position \<open>i\<close> of a chain.\<close>

definition violacion :: "bloque list \<Rightarrow> nat \<Rightarrow> error_validacion option" where
  "violacion cadena_bloques i = validar_bloque (cadena_bloques ! i) (cadena_bloques ! (i - 1))"

text \<open>
  The properties of a finished block object, as a reader of the chain or the export
  (\<open>JSON.stringify\<close> of \<open>ESTADO.blockchain\<close>) sees them; reading any other property
  gives \<open>undefined\<close>.
\<close>

definition propiedades :: "bloque \<Rightarrow> (cadena \<times> json) list" where
  "propiedades b =
     [(js ''index'', JNum (int (index b))),
      (js ''timestamp'', JStr (timestamp b)),
      (js ''data'', data b),
      (js ''previousHash'', JStr (previousHash b)),
      (js ''nonce'', JNum (int (nonce b))),
      (js ''difficulty'', JNum (int (difficulty b))),
      (js ''hash'', JStr (hash b))]"

definition leer_propiedad :: "bloque \<Rightarrow> cadena \<Rightarrow> json option" where
  "leer_propiedad b nombre = map_of (propiedades b) nombre"

text \<open>
  Primality of a natural number, by trial division. The scripts contain no primality
  test; this is the predicate by which block indices and nonces are judged.
\<close>

definition is_prime :: "nat \<Rightarrow> bool" where
  "is_prime n \<longleftrightarrow> 2 \<le> n \<and> filter (\<lambda>d. n mod d = 0) [2..<n] = []"


section \<open>Descargador: the hash registry\<close>

text \<open>The class \<open>\s\<close> of JavaScript regular expressions, on code units.\<close>

definition es_espacio :: "unidad \<Rightarrow> bool" where
  "es_espacio c \<longleftrightarrow>
     c \<in> set [0x09, 0x0A, 0x0B, 0x0C, 0x0D, 0x20, 0xA0, 0x1680, 0x2028, 0x2029, 0x202F,
              0x205F, 0x3000, 0xFEFF]
     \<or> (0x2000 \<le> c \<and> c \<le> 0x200A)"

text \<open>\<open>s.replace(/[\/\s]/g, '_')\<close>: every slash and every white-space character.\<close>

definition reemplazar_barras_espacios :: "cadena \<Rightarrow> cadena" where
  "reemplazar_barras_espacios s = map (\<lambda>c. if c = 0x2F \<or> es_espacio c then 0x5F else c) s"

text \<open>
  \<open>s.replace(/\s+/g, '_')\<close>: every maximal run of white space becomes one underscore.
  The flag says that the previous character belonged to a run already replaced.
\<close>

fun reemplazar_espacios_desde :: "bool \<Rightarrow> cadena \<Rightarrow> cadena" where
  "reemplazar_espacios_desde en_racha [] = []"
| "reemplazar_espacios_desde en_racha (c # cs) =
     (if es_espacio c
      then (if en_racha then reemplazar_espacios_desde True cs
            else 0x5F # reemplazar_espacios_desde True cs)
      else c # reemplazar_espacios_desde False cs)"

definition reemplazar_espacios :: "cadena \<Rightarrow> cadena" where
  "reemplazar_espacios s = reemplazar_espacios_desde False s"

text \<open>\<open>s.split(sep)\<close> for a one-character separator: never an empty array.\<close>

fun split :: "unidad \<Rightarrow> cadena \<Rightarrow> cadena list" where
  "split sep [] = [[]]"
| "split sep (c # cs) =
     (if c = sep then [] # split sep cs
      else (case split sep cs of
              [] \<Rightarrow> [[c]]
            | x # xs \<Rightarrow> (c # x) # xs))"

record documento =
  d_url :: cadena
  d_texto :: cadena
  d_tipo :: cadena

record expediente =
  numero :: cadena
  hashID :: cadena

text \<open>
  \<open>generarNombreArchivo\<close>: the normalised case number, the document type, the
  millisecond clock reading and the extension of the locator
  (\<open>url.split('.').pop().split('?')[0] || 'pdf'\<close>).
\<close>

definition generarNombreArchivo :: "documento \<Rightarrow> expediente \<Rightarrow> nat \<Rightarrow> cadena" where
  "generarNombreArchivo doc exped ms =
     (let expedienteNormalizado = reemplazar_barras_espacios (numero exped);
          tipoDocumento = reemplazar_espacios (d_tipo doc);
          primera = hd (split 0x3F (last (split 0x2E (d_url doc))));
          extension = (if primera = [] then js ''pdf'' else primera)
      in expedienteNormalizado @ js ''_'' @ tipoDocumento @ js ''_'' @ toString10 ms
           @ js ''.'' @ extension)"

text \<open>
  What the request of \<open>descargarDocumento\<close> ends with: the \<open>onload\<close> callback with the
  bytes of the response, \<open>onerror\<close> with the text of the error, or \<open>ontimeout\<close>.
\<close>

datatype respuesta =
    OnLoad "8 word list"
  | OnError cadena
  | OnTimeout

datatype rechazo =
    ErrorDescarga cadena
  | TimeoutDescarga
  | Excepcion error_js

record descarga =
  r_nombreArchivo :: cadena
  r_hash :: cadena
  r_tamano :: nat

text \<open>The readings of \<open>new Date().toISOString()\<close> made while a callback runs, in order.\<close>

record reloj =
  t_registro :: cadena
  t_bloque :: cadena
  t_auditoria :: cadena

text \<open>
  \<open>Descargador.descargarDocumento\<close> of the extractor. The digest of the bytes comes from
  the browser (\<open>crypto.subtle.digest\<close> behind \<open>Crypto.sha256File\<close>) and is a parameter;
  \<open>ms\<close> is the reading of \<open>Date.now()\<close> when the request is made. The registry entry is
  stored under the generated file name. An exception inside \<open>onload\<close> rejects the promise
  and keeps what was written before it. Saving the file with \<open>GM_download\<close> leaves
  \<open>ESTADO\<close> alone.
\<close>

definition descargarDocumento ::
  "(8 word list \<Rightarrow> cadena) \<Rightarrow> config \<Rightarrow> documento \<Rightarrow> expediente \<Rightarrow> nat \<Rightarrow> respuesta \<Rightarrow> reloj
     \<Rightarrow> estado \<Rightarrow> estado \<times> (rechazo + descarga)" where
  "descargarDocumento sha256File cfg doc exped ms resp rl st =
     (let nombreArchivo = generarNombreArchivo doc exped ms in
      case resp of
        OnLoad blob \<Rightarrow>
          (let tamano = length blob;
               h = sha256File blob;
               st1 = st\<lparr>hashRegistry := asignar nombreArchivo
                          \<lparr> e_hash = h, e_tamano = tamano, e_url = d_url doc,
                            e_expediente = numero exped, e_timestamp = t_registro rl \<rparr>
                          (hashRegistry st),
                        archivosDescargados := archivosDescargados st + 1,
                        tamanoTotalDescargado := tamanoTotalDescargado st + tamano,
                        hashesGenerados := hashesGenerados st + 1\<rparr>;
               registrado =
                 (if usarBlockchain cfg
                  then (case agregarBloque cfg (t_bloque rl)
                          (JObj [(js ''tipo'', JStr (js ''DOCUMENTO_DESCARGADO'')),
                                 (js ''expediente'', JStr (numero exped)),
                                 (js ''nombreArchivo'', JStr nombreArchivo),
                                 (js ''hash'', JStr h),
                                 (js ''tama'' @ [0xF1] @ js ''o'', JNum (int tamano)),
                                 (js ''url'', JStr (d_url doc))]) st1 of
                          Inl e \<Rightarrow> Inl e
                        | Inr (b, st2) \<Rightarrow> Inr st2)
                  else Inr st1)
           in case registrado of
                Inl e \<Rightarrow> (st1, Inl (Excepcion e))
              | Inr st2 \<Rightarrow>
                  (st2\<lparr>auditLedger := auditLedger st2 @
                         [JObj [(js ''timestamp'', JStr (t_auditoria rl)),
                                (js ''accion'', JStr (js ''DESCARGA_DOCUMENTO'')),
                                (js ''expediente'', JStr (numero exped)),
                                (js ''archivo'', JStr nombreArchivo),
                                (js ''hash'', JStr h),
                                (js ''tama'' @ [0xF1] @ js ''o'', JNum (int tamano))]]\<rparr>,
                   Inr \<lparr> r_nombreArchivo = nombreArchivo, r_hash = h, r_tamano = tamano \<rparr>))
      | OnError mensaje \<Rightarrow>
          (st\<lparr>errores := errores st @
                 [JObj [(js ''tipo'', JStr (js ''DESCARGA_DOCUMENTO'')),
                        (js ''url'', JStr (d_url doc)),
                        (js ''error'', JStr mensaje),
                        (js ''timestamp'', JStr (t_registro rl))]]\<rparr>,
           Inl (ErrorDescarga mensaje))
      | OnTimeout \<Rightarrow>
          (st\<lparr>errores := errores st @
                 [JObj [(js ''tipo'', JStr (js ''DESCARGA_TIMEOUT'')),
                        (js ''url'', JStr (d_url doc)),
                        (js ''error'', JStr (js ''Timeout en descarga'')),
                        (js ''timestamp'', JStr (t_registro rl))]]\<rparr>,
           Inl TimeoutDescarga))"


section \<open>Example inputs\<close>

text \<open>A clock reading, and the genesis block of the configuration that the script ships.\<close>

definition t_ejemplo :: cadena where
  "t_ejemplo = js ''2025-01-01T00:00:00.000Z''"

definition genesis_ejemplo :: bloque where
  "genesis_ejemplo = crearBloqueGenesis CONFIG t_ejemplo"

text \<open>
  A configuration that asks for 65 leading zeros, more than a hash has characters; the
  system started with it; and the block that \<open>agregarBloque\<close> then builds, before mining,
  from an empty payload.
\<close>

definition CONFIG_65 :: config where
  "CONFIG_65 = CONFIG\<lparr>dificultadProofOfWork := 65\<rparr>"

definition genesis_65 :: bloque where
  "genesis_65 = crearBloqueGenesis CONFIG_65 t_ejemplo"

definition estado_65 :: estado where
  "estado_65 = iniciar CONFIG_65 t_ejemplo ESTADO_inicial"

definition bloque_65 :: bloque where
  "bloque_65 = \<lparr> index = 1, timestamp = t_ejemplo, data = JObj [],
                  previousHash = hash genesis_65, nonce = 0, difficulty = 65, hash = [] \<rparr>"

text \<open>
  A chain as validation may be handed it after tampering: the block at position 1 links
  to the block before it but its stored hash is not the hash of its fields, and the block
  at position 2 does not link to the block at position 1.
\<close>

definition cadena_alterada :: "bloque list" where
  "cadena_alterada =
     [\<lparr> index = 0, timestamp = t_ejemplo, data = JObj [], previousHash = repeat0 64,
         nonce = 0, difficulty = 4, hash = js ''aa'' \<rparr>,
      \<lparr> index = 1, timestamp = t_ejemplo, data = JObj [], previousHash = js ''aa'',
         nonce = 0, difficulty = 4, hash = js ''cc'' \<rparr>,
      \<lparr> index = 2, timestamp = t_ejemplo, data = JObj [], previousHash = js ''dd'',
         nonce = 0, difficulty = 4, hash = js ''ee'' \<rparr>]"

text \<open>
  A block mined from the example genesis block, the sound chain of the two, and three
  chains that add a third block failing one check each: one that does not link to the
  block before it; one that links but whose stored hash is not the hash of its fields;
  one that links and stores the hash of its fields but asks for 65 leading zeros.
\<close>

definition bloque_1 :: bloque where
  "bloque_1 = calcularProofOfWork
     \<lparr> index = 1, timestamp = t_ejemplo, data = JObj [], previousHash = hash genesis_ejemplo,
       nonce = 0, difficulty = 4, hash = [] \<rparr>"

definition cadena_sana :: "bloque list" where
  "cadena_sana = [genesis_ejemplo, bloque_1]"

definition cadena_rota :: "bloque list" where
  "cadena_rota =
     [genesis_ejemplo, bloque_1,
      \<lparr> index = 2, timestamp = t_ejemplo, data = JObj [], previousHash = js ''dd'',
        nonce = 0, difficulty = 4, hash = js ''ee'' \<rparr>]"

definition cadena_retocada :: "bloque list" where
  "cadena_retocada =
     [genesis_ejemplo, bloque_1,
      \<lparr> index = 2, timestamp = t_ejemplo, data = JObj [], previousHash = hash bloque_1,
        nonce = 0, difficulty = 4, hash = js ''ee'' \<rparr>]"

definition bloque_sin_pow :: bloque where
  "bloque_sin_pow =
     (let b = \<lparr> index = 2, timestamp = t_ejemplo, data = JObj [],
                 previousHash = hash bloque_1, nonce = 0, difficulty = 65, hash = [] \<rparr>
      in b\<lparr>hash := calcularHashBloque b\<rparr>)"

definition cadena_sin_pow :: "bloque list" where
  "cadena_sin_pow = [genesis_ejemplo, bloque_1, bloque_sin_pow]"

text \<open>
  Two downloads of the same bytes from two locators of one case, 1.5 seconds apart. The
  browser's SHA-256 is outside the repository; where a run needs a digest, the script's
  own \<open>sha256Sync\<close> is applied to the bytes.
\<close>

definition exped_ejemplo :: expediente where
  "exped_ejemplo = \<lparr> numero = js ''1/2025'', hashID = js ''SCJN_2025_1_2025'' \<rparr>"

definition doc_a :: documento where
  "doc_a = \<lparr> d_url = js ''https://www2.scjn.gob.mx/a.pdf'', d_texto = js ''Engrose'',
             d_tipo = js ''ENGROSE'' \<rparr>"

definition doc_b :: documento where
  "doc_b = \<lparr> d_url = js ''https://www2.scjn.gob.mx/b.pdf'', d_texto = js ''Engrose'',
             d_tipo = js ''ENGROSE'' \<rparr>"

definition blob_ejemplo :: "8 word list" where
  "blob_ejemplo = [0x25, 0x50, 0x44, 0x46]"

definition digest_de_prueba :: "8 word list \<Rightarrow> cadena" where
  "digest_de_prueba bytes = sha256Sync (map ucast bytes)"

definition reloj_ejemplo :: reloj where
  "reloj_ejemplo = \<lparr> t_registro = t_ejemplo, t_bloque = t_ejemplo, t_auditoria = t_ejemplo \<rparr>"

definition estado_0 :: estado where
  "estado_0 = iniciar CONFIG t_ejemplo ESTADO_inicial"

definition estado_a :: estado where
  "estado_a = fst (descargarDocumento digest_de_prueba CONFIG doc_a exped_ejemplo 1000
                     (OnLoad blob_ejemplo) reloj_ejemplo estado_0)"

definition estado_b :: estado where
  "estado_b = fst (descargarDocumento digest_de_prueba CONFIG doc_b exped_ejemplo 2500
                     (OnLoad blob_ejemplo) reloj_ejemplo estado_a)"


section \<open>The block hash is a 32-bit value\<close>

lemma ToInt32_rango: "- (2 ^ 31) \<le> ToInt32 x \<and> ToInt32 x < 2 ^ 31"
  unfolding ToInt32_def
  using pos_mod_bound [of "2 ^ 32" "x + 2 ^ 31"] pos_mod_sign [of "2 ^ 32" "x + 2 ^ 31"]
  by simp

lemma sha256Sync_bucle_rango:
  "- (2 ^ 31) \<le> h \<Longrightarrow> h < 2 ^ 31 \<Longrightarrow>
   - (2 ^ 31) \<le> sha256Sync_bucle h s \<and> sha256Sync_bucle h s < 2 ^ 31"
proof (induction s arbitrary: h)
  case Nil
  then show ?case by simp
next
  case (Cons c cs)
  show ?case
    using Cons.IH [of "ToInt32 (ToInt32 (h * 32) - h + int (unat c))"] ToInt32_rango
    by simp
qed

lemma sha256Sync_acumulador: "nat \<bar>sha256Sync_bucle 0 s\<bar> \<le> 2 ^ 31"
  using sha256Sync_bucle_rango [of 0 s] by (auto simp: abs_if nat_le_iff)

lemma toString16_longitud: "0 < k \<Longrightarrow> n < 16 ^ k \<Longrightarrow> length (toString16 n) \<le> k"
proof (induction k arbitrary: n)
  case 0
  then show ?case by simp
next
  case (Suc k)
  show ?case
  proof (cases "n < 16")
    case True
    then show ?thesis by (simp add: toString16.simps [of n])
  next
    case False
    then have k: "0 < k" using Suc.prems by (cases k) auto
    have "n div 16 < 16 ^ k" using Suc.prems by (simp add: less_mult_imp_div_less mult.commute)
    from Suc.IH [OF k this] False show ?thesis by (simp add: toString16.simps [of n])
  qed
qed

lemma toString16_no_vacio: "toString16 n \<noteq> []"
  by (simp add: toString16.simps [of n])

lemma digito_hex: "d < 16 \<Longrightarrow> digito d \<in> set (js ''0123456789abcdef'')"
proof -
  assume "d < 16"
  then have "d = 0 \<or> d = 1 \<or> d = 2 \<or> d = 3 \<or> d = 4 \<or> d = 5 \<or> d = 6 \<or> d = 7 \<or> d = 8
      \<or> d = 9 \<or> d = 10 \<or> d = 11 \<or> d = 12 \<or> d = 13 \<or> d = 14 \<or> d = 15"
    by arith
  then show ?thesis by (elim disjE) (simp_all add: digito_def js_def)
qed

lemma toString16_hex: "set (toString16 n) \<subseteq> set (js ''0123456789abcdef'')"
proof (induction n rule: toString16.induct)
  case (1 n)
  show ?case
  proof (cases "n < 16")
    case True
    then show ?thesis using digito_hex [of n] by (simp add: toString16.simps [of n])
  next
    case False
    then show ?thesis using 1 digito_hex [of "n mod 16"] by (simp add: toString16.simps [of n])
  qed
qed

lemma sha256Sync_hex_corto: "length (toString16 (nat \<bar>sha256Sync_bucle 0 s\<bar>)) \<le> 8"
proof -
  have "nat \<bar>sha256Sync_bucle 0 s\<bar> < 16 ^ 8" using sha256Sync_acumulador [of s] by simp
  then show ?thesis by (intro toString16_longitud) simp_all
qed

lemma sha256Sync_forma:
  "\<exists>t. length t \<le> 8 \<and> t \<noteq> [] \<and> set t \<subseteq> set (js ''0123456789abcdef'') \<and>
       sha256Sync s = replicate (64 - length t) cero @ t"
  using sha256Sync_hex_corto [of s] toString16_no_vacio toString16_hex
  by (intro exI [of _ "toString16 (nat \<bar>sha256Sync_bucle 0 s\<bar>)"]) (simp add: sha256Sync_def padStart_def)

lemma sha256Sync_longitud: "length (sha256Sync s) = 64"
  using sha256Sync_forma [of s] by auto

lemma sha256Sync_ceros: "d \<le> 56 \<Longrightarrow> take d (sha256Sync s) = replicate d cero"
proof -
  assume d: "d \<le> 56"
  obtain t where t: "length t \<le> 8" "sha256Sync s = replicate (64 - length t) cero @ t"
    using sha256Sync_forma [of s] by blast
  then show ?thesis using d by (simp add: min_def)
qed

lemma cero_hex: "cero \<in> set (js ''0123456789abcdef'')"
  by (simp add: cero_def js_def)

lemma sha256Sync_hex: "set (sha256Sync s) \<subseteq> set (js ''0123456789abcdef'')"
proof -
  obtain t where t: "set t \<subseteq> set (js ''0123456789abcdef'')" "sha256Sync s = replicate (64 - length t) cero @ t"
    using sha256Sync_forma [of s] by blast
  show ?thesis unfolding t(2) using t(1) cero_hex by (auto simp del: replicate.simps)
qed

lemma startsWith_sha256Sync: "d \<le> 56 \<Longrightarrow> startsWith (sha256Sync s) (repeat0 d)"
  by (simp add: startsWith_def repeat0_def sha256Sync_ceros)

lemma no_startsWith_largo: "64 < d \<Longrightarrow> \<not> startsWith (sha256Sync s) (repeat0 d)"
proof
  assume d: "64 < d" and "startsWith (sha256Sync s) (repeat0 d)"
  then have "take d (sha256Sync s) = replicate d cero" by (simp add: startsWith_def repeat0_def)
  then have "length (take d (sha256Sync s)) = d" by simp
  then show False using d sha256Sync_longitud [of s] by simp
qed


section \<open>The proof-of-work loop\<close>

lemma pow_bucle_exito:
  "n < maxIteraciones \<Longrightarrow> startsWith (calcularHashBloque (b\<lparr>nonce := n\<rparr>)) prefix \<Longrightarrow>
   pow_bucle prefix b n h probados =
     (b\<lparr>nonce := n, hash := calcularHashBloque (b\<lparr>nonce := n\<rparr>)\<rparr>, probados @ [n])"
  by (subst pow_bucle.simps) (simp add: Let_def)

lemma calcularHashBloque_nonce_previo:
  "calcularHashBloque (b\<lparr>nonce := m, nonce := n\<rparr>) = calcularHashBloque (b\<lparr>nonce := n\<rparr>)"
  by simp

lemma pow_bucle_agotado:
  "n < maxIteraciones \<Longrightarrow>
   (\<And>k. n \<le> k \<Longrightarrow> k < maxIteraciones \<Longrightarrow> \<not> startsWith (calcularHashBloque (b\<lparr>nonce := k\<rparr>)) prefix) \<Longrightarrow>
   pow_bucle prefix b n h probados =
     (b\<lparr>nonce := maxIteraciones - 1,
        hash := calcularHashBloque (b\<lparr>nonce := maxIteraciones - 1\<rparr>)\<rparr>,
      probados @ [n..<maxIteraciones])"
proof (induction prefix b n h probados rule: pow_bucle.induct)
  case (1 prefix b n h probados)
  have falla: "\<not> startsWith (calcularHashBloque (b\<lparr>nonce := n\<rparr>)) prefix"
    using "1.prems" by simp
  show ?case
  proof (cases "Suc n < maxIteraciones")
    case True
    have "pow_bucle prefix (b\<lparr>nonce := n\<rparr>) (n + 1) (calcularHashBloque (b\<lparr>nonce := n\<rparr>)) (probados @ [n]) =
        (b\<lparr>nonce := n\<rparr>\<lparr>nonce := maxIteraciones - 1,
           hash := calcularHashBloque (b\<lparr>nonce := n\<rparr>\<lparr>nonce := maxIteraciones - 1\<rparr>)\<rparr>,
         (probados @ [n]) @ [n + 1..<maxIteraciones])"
      using "1.prems" True falla
      by (intro "1.IH") simp_all
    then show ?thesis
      using "1.prems"(1) falla True
      by (subst pow_bucle.simps) (simp add: Let_def upt_conv_Cons)
  next
    case False
    then have n: "n = maxIteraciones - 1" using "1.prems"(1) by simp
    have fin: "pow_bucle prefix (b\<lparr>nonce := n\<rparr>) (n + 1) (calcularHashBloque (b\<lparr>nonce := n\<rparr>)) (probados @ [n])
        = (b\<lparr>nonce := n, hash := calcularHashBloque (b\<lparr>nonce := n\<rparr>)\<rparr>, probados @ [n])"
      using False by (subst pow_bucle.simps) simp
    have "[n..<maxIteraciones] = [n]" using "1.prems"(1) False by (simp add: upt_conv_Cons)
    then show ?thesis
      using "1.prems"(1) falla fin n
      by (subst pow_bucle.simps) (simp add: Let_def)
  qed
qed

lemma pow_bucle_paso:
  "n < maxIteraciones \<Longrightarrow> \<not> startsWith (calcularHashBloque (b\<lparr>nonce := n\<rparr>)) prefix \<Longrightarrow>
   pow_bucle prefix b n h probados =
     pow_bucle prefix (b\<lparr>nonce := n\<rparr>) (n + 1) (calcularHashBloque (b\<lparr>nonce := n\<rparr>)) (probados @ [n])"
  by (subst pow_bucle.simps) (simp add: Let_def)

lemma pow_bucle_fin:
  "\<not> n < maxIteraciones \<Longrightarrow> pow_bucle prefix b n h probados = (b\<lparr>hash := h\<rparr>, probados)"
  by (subst pow_bucle.simps) simp



lemma maxIteraciones_positivo: "0 < maxIteraciones"
  by (simp add: maxIteraciones_def)

lemma pow_dificultad_baja:
  "difficulty b \<le> 56 \<Longrightarrow>
   pow_bucle (repeat0 (difficulty b)) b 0 [] [] =
     (b\<lparr>nonce := 0, hash := calcularHashBloque (b\<lparr>nonce := 0\<rparr>)\<rparr>, [0])"
  using pow_bucle_exito [of 0 b "repeat0 (difficulty b)" "[]" "[]"]
  by (simp add: maxIteraciones_positivo calcularHashBloque_def startsWith_sha256Sync)

text \<open>
  Claim C9. For every input string, \<open>sha256Sync\<close> returns 64 hexadecimal characters of
  which the first 56 are \<open>0\<close>, because its accumulator is a signed 32-bit value. So for a
  block whose difficulty is at most 56 the hash computed with nonce 0 already starts with
  the required zeros: the proof-of-work loop tries nonce 0 only and returns the block with
  nonce 0 and that hash.
\<close>

theorem sha256Sync_32_bits:
  "length (sha256Sync str) = 64 \<and>
   set (sha256Sync str) \<subseteq> set (js ''0123456789abcdef'') \<and>
   take 56 (sha256Sync str) = replicate 56 cero \<and>
   (difficulty b \<le> 56 \<longrightarrow>
      startsWith (calcularHashBloque (b\<lparr>nonce := 0\<rparr>)) (repeat0 (difficulty b)) \<and>
      nonces_probados b = [0] \<and>
      calcularProofOfWork b = b\<lparr>nonce := 0, hash := calcularHashBloque (b\<lparr>nonce := 0\<rparr>)\<rparr>)"
  by (simp add: sha256Sync_longitud sha256Sync_hex sha256Sync_ceros pow_dificultad_baja
      calcularProofOfWork_def nonces_probados_def calcularHashBloque_def startsWith_sha256Sync)

text \<open>
  Claim C9 at a concrete string and at a block of difficulty 4.
\<close>

theorem sha256Sync_32_bits_witness:
  "length (sha256Sync (js ''abc'')) = 64 \<and>
   take 56 (sha256Sync (js ''abc'')) = replicate 56 cero \<and>
   difficulty bloque_65 = 65 \<and>
   difficulty (bloque_65\<lparr>difficulty := 4\<rparr>) \<le> 56 \<and>
   nonces_probados (bloque_65\<lparr>difficulty := 4\<rparr>) = [0] \<and>
   nonce (calcularProofOfWork (bloque_65\<lparr>difficulty := 4\<rparr>)) = 0"
  using sha256Sync_32_bits [of "js ''abc''" "bloque_65\<lparr>difficulty := 4\<rparr>"]
  by (simp add: bloque_65_def)

lemma pow_bucle_campos:
  "fst (pow_bucle prefix b n h probados) =
     b\<lparr>nonce := nonce (fst (pow_bucle prefix b n h probados)),
       hash := hash (fst (pow_bucle prefix b n h probados))\<rparr>"
proof (induction prefix b n h probados rule: pow_bucle.induct)
  case (1 prefix b n h probados)
  show ?case
  proof (cases "n < maxIteraciones")
    case False
    then show ?thesis by (simp add: pow_bucle_fin)
  next
    case n: True
    show ?thesis
    proof (cases "startsWith (calcularHashBloque (b\<lparr>nonce := n\<rparr>)) prefix")
      case True
      then show ?thesis using n by (simp add: pow_bucle_exito)
    next
      case False
      let ?r = "pow_bucle prefix (b\<lparr>nonce := n\<rparr>) (n + 1) (calcularHashBloque (b\<lparr>nonce := n\<rparr>)) (probados @ [n])"
      have "fst ?r = b\<lparr>nonce := n\<rparr>\<lparr>nonce := nonce (fst ?r), hash := hash (fst ?r)\<rparr>"
        using n False by (intro "1.IH") simp_all
      then have "fst ?r = b\<lparr>nonce := nonce (fst ?r), hash := hash (fst ?r)\<rparr>" by simp
      then show ?thesis using n False by (simp add: pow_bucle_paso)
    qed
  qed
qed

lemma calcularProofOfWork_campos:
  "calcularProofOfWork b =
     b\<lparr>nonce := nonce (calcularProofOfWork b), hash := hash (calcularProofOfWork b)\<rparr>"
  unfolding calcularProofOfWork_def by (rule pow_bucle_campos)

lemma calcularProofOfWork_index: "index (calcularProofOfWork b) = index b"
  by (subst calcularProofOfWork_campos) simp

lemma calcularHashBloque_sin_dificultad:
  "calcularHashBloque (b\<lparr>difficulty := k, hash := h\<rparr>) = calcularHashBloque b"
  by (simp add: calcularHashBloque_def bloqueString_def)

lemma calcularHashBloque_sin_hash:
  "calcularHashBloque (b\<lparr>hash := h\<rparr>) = calcularHashBloque b"
  by (simp add: calcularHashBloque_def bloqueString_def)

lemma pow_bucle_hash:
  "n < maxIteraciones \<or> h = calcularHashBloque b \<Longrightarrow>
   hash (fst (pow_bucle prefix b n h probados)) = calcularHashBloque (fst (pow_bucle prefix b n h probados))"
proof (induction prefix b n h probados rule: pow_bucle.induct)
  case (1 prefix b n h probados)
  show ?case
  proof (cases "n < maxIteraciones")
    case False
    then show ?thesis using "1.prems" by (simp add: pow_bucle_fin calcularHashBloque_sin_hash)
  next
    case n: True
    show ?thesis
    proof (cases "startsWith (calcularHashBloque (b\<lparr>nonce := n\<rparr>)) prefix")
      case True
      then show ?thesis using n by (simp add: pow_bucle_exito calcularHashBloque_sin_hash)
    next
      case False
      let ?r = "pow_bucle prefix (b\<lparr>nonce := n\<rparr>) (n + 1) (calcularHashBloque (b\<lparr>nonce := n\<rparr>)) (probados @ [n])"
      have "hash (fst ?r) = calcularHashBloque (fst ?r)"
        using n False by (intro "1.IH") simp_all
      then show ?thesis using n False by (simp add: pow_bucle_paso)
    qed
  qed
qed

lemma calcularProofOfWork_hash:
  "hash (calcularProofOfWork b) = calcularHashBloque (calcularProofOfWork b)"
  unfolding calcularProofOfWork_def
  by (rule pow_bucle_hash) (simp add: maxIteraciones_positivo)

lemma crearBloqueGenesis_hash:
  "hash (crearBloqueGenesis cfg ahora) = calcularHashBloque (crearBloqueGenesis cfg ahora)"
  by (simp add: crearBloqueGenesis_def Let_def calcularHashBloque_def bloqueString_def)

text \<open>
  Claim C5, as amended. The block hash is \<open>sha256Sync\<close> of the JSON text of five
  properties, in the order index, timestamp, data, previousHash, nonce. The difficulty is
  not part of the hashed text, so changing the difficulty of a block leaves the recomputed
  hash unchanged. The hash stored by \<open>calcularProofOfWork\<close> and by \<open>crearBloqueGenesis\<close>
  is the hash recomputed from the block they return.
\<close>

theorem calcularHashBloque_cinco_campos:
  "calcularHashBloque b =
     sha256Sync (stringify (JObj
       [(js ''index'', JNum (int (index b))),
        (js ''timestamp'', JStr (timestamp b)),
        (js ''data'', data b),
        (js ''previousHash'', JStr (previousHash b)),
        (js ''nonce'', JNum (int (nonce b)))])) \<and>
   calcularHashBloque (b\<lparr>difficulty := k\<rparr>) = calcularHashBloque b \<and>
   hash (calcularProofOfWork b) = calcularHashBloque (calcularProofOfWork b) \<and>
   hash (crearBloqueGenesis cfg ahora) = calcularHashBloque (crearBloqueGenesis cfg ahora)"
  by (simp add: calcularProofOfWork_hash crearBloqueGenesis_hash)
     (simp add: calcularHashBloque_def bloqueString_def)

text \<open>
  Claim C5 as stated fails: the example genesis block and the same block with difficulty 5
  differ in their difficulty, yet the hashed text and the recomputed hash are the same.
\<close>

theorem calcularHashBloque_ignora_difficulty:
  "difficulty (genesis_ejemplo\<lparr>difficulty := 5\<rparr>) \<noteq> difficulty genesis_ejemplo \<and>
   bloqueString (genesis_ejemplo\<lparr>difficulty := 5\<rparr>) = bloqueString genesis_ejemplo \<and>
   calcularHashBloque (genesis_ejemplo\<lparr>difficulty := 5\<rparr>) = calcularHashBloque genesis_ejemplo"
  by (simp add: genesis_ejemplo_def crearBloqueGenesis_def Let_def CONFIG_def
      calcularHashBloque_def bloqueString_def)

lemma validarBlockchain_dos:
  "validarBlockchain [a, b] =
     (case validar_bloque b a of Some e \<Rightarrow> Invalida e 1 | None \<Rightarrow> Valida 2)"
  unfolding validarBlockchain_def
  by (subst validar_bucle.simps, subst validar_bucle.simps) (simp split: option.splits)

lemma agregarBloque_65:
  "agregarBloque CONFIG_65 t_ejemplo (JObj []) estado_65 =
     Inr (calcularProofOfWork bloque_65,
          estado_65\<lparr>blockchain := [genesis_65, calcularProofOfWork bloque_65],
                    bloquesCreados := 1\<rparr>)"
  by (simp add: agregarBloque_def estado_65_def iniciar_def ESTADO_inicial_def Let_def
      bloque_65_def genesis_65_def CONFIG_65_def CONFIG_def)

lemma calcularProofOfWork_agotado:
  "(\<And>k. k < maxIteraciones \<Longrightarrow>
      \<not> startsWith (calcularHashBloque (b\<lparr>nonce := k\<rparr>)) (repeat0 (difficulty b))) \<Longrightarrow>
   pow_bucle (repeat0 (difficulty b)) b 0 [] [] =
     (b\<lparr>nonce := maxIteraciones - 1, hash := calcularHashBloque (b\<lparr>nonce := maxIteraciones - 1\<rparr>)\<rparr>,
      [0..<maxIteraciones])"
  using pow_bucle_agotado [of 0 b "repeat0 (difficulty b)" "[]" "[]"]
  by (simp add: maxIteraciones_positivo)

lemma propiedad_pow_incomplete: "leer_propiedad b (js ''pow_incomplete'') = None"
  by (simp add: leer_propiedad_def propiedades_def js_def)

text \<open>
  Claim C4, as amended. When no nonce below the iteration ceiling gives a hash with the
  required zeros, \<open>calcularProofOfWork\<close> has tried every nonce below the ceiling and
  returns the block with the last nonce tried and the hash computed for it. The block
  object has no \<open>pow_incomplete\<close> property. Validation of such a block checks its link to
  the previous block first and, when the link holds, rejects the block for its proof of
  work.
\<close>

theorem pow_agotado_sin_marca:
  "(\<forall>k < maxIteraciones.
      \<not> startsWith (calcularHashBloque (b\<lparr>nonce := k\<rparr>)) (repeat0 (difficulty b))) \<Longrightarrow>
   calcularProofOfWork b =
     b\<lparr>nonce := maxIteraciones - 1, hash := calcularHashBloque (b\<lparr>nonce := maxIteraciones - 1\<rparr>)\<rparr> \<and>
   length (nonces_probados b) = maxIteraciones \<and>
   leer_propiedad (calcularProofOfWork b) (js ''pow_incomplete'') = None \<and>
   validar_bloque (calcularProofOfWork b) anterior =
     (if previousHash b \<noteq> hash anterior then Some PreviousHashNoCoincide
      else Some ProofOfWorkInvalido)"
proof -
  assume falla: "\<forall>k < maxIteraciones.
      \<not> startsWith (calcularHashBloque (b\<lparr>nonce := k\<rparr>)) (repeat0 (difficulty b))"
  let ?u = "maxIteraciones - 1"
  have r: "pow_bucle (repeat0 (difficulty b)) b 0 [] [] =
     (b\<lparr>nonce := ?u, hash := calcularHashBloque (b\<lparr>nonce := ?u\<rparr>)\<rparr>, [0..<maxIteraciones])"
    using falla by (intro calcularProofOfWork_agotado) simp
  have p: "calcularProofOfWork b = b\<lparr>nonce := ?u, hash := calcularHashBloque (b\<lparr>nonce := ?u\<rparr>)\<rparr>"
    by (simp add: calcularProofOfWork_def r)
  have u: "\<not> startsWith (calcularHashBloque (b\<lparr>nonce := ?u\<rparr>)) (repeat0 (difficulty b))"
    using falla maxIteraciones_positivo by simp
  have v: "validar_bloque (b\<lparr>nonce := ?u, hash := calcularHashBloque (b\<lparr>nonce := ?u\<rparr>)\<rparr>) anterior =
     (if previousHash b \<noteq> hash anterior then Some PreviousHashNoCoincide
      else Some ProofOfWorkInvalido)"
    using u by (simp add: validar_bloque_def calcularHashBloque_sin_hash)
  show ?thesis
    using v by (simp add: p propiedad_pow_incomplete nonces_probados_def r)
qed

lemma bloque_65_falla:
  "\<forall>k < maxIteraciones.
      \<not> startsWith (calcularHashBloque (bloque_65\<lparr>nonce := k\<rparr>)) (repeat0 (difficulty bloque_65))"
  by (simp add: calcularHashBloque_def no_startsWith_largo bloque_65_def)

lemma bloque_65_agotado:
  "pow_bucle (repeat0 (difficulty bloque_65)) bloque_65 0 [] [] =
     (bloque_65\<lparr>nonce := maxIteraciones - 1,
        hash := calcularHashBloque (bloque_65\<lparr>nonce := maxIteraciones - 1\<rparr>)\<rparr>, [0..<maxIteraciones])"
  using bloque_65_falla by (intro calcularProofOfWork_agotado) simp

text \<open>
  Claim C4, as amended, at a block of difficulty 65: a hash has 64 characters, so no nonce
  can succeed. The chain of the genesis block and the block emitted is rejected at
  position 1 for its proof of work.
\<close>

theorem pow_agotado_sin_marca_witness:
  "difficulty bloque_65 = 65 \<and>
   nonce (calcularProofOfWork bloque_65) = 999999 \<and>
   length (nonces_probados bloque_65) = 1000000 \<and>
   validar_bloque (calcularProofOfWork bloque_65) genesis_65 = Some ProofOfWorkInvalido \<and>
   validarBlockchain [genesis_65, calcularProofOfWork bloque_65] = Invalida ProofOfWorkInvalido 1"
proof -
  note t = pow_agotado_sin_marca [OF bloque_65_falla, of genesis_65]
  have p: "previousHash bloque_65 = hash genesis_65"
    by (simp add: bloque_65_def)
  have n: "nonce (calcularProofOfWork bloque_65) = 999999"
    using t by (simp add: maxIteraciones_def)
  have l: "length (nonces_probados bloque_65) = 1000000"
    using t by (simp add: maxIteraciones_def)
  have v: "validar_bloque (calcularProofOfWork bloque_65) genesis_65 = Some ProofOfWorkInvalido"
    using t [THEN conjunct2, THEN conjunct2, THEN conjunct2] p by simp
  have c: "validarBlockchain [genesis_65, calcularProofOfWork bloque_65]
      = Invalida ProofOfWorkInvalido 1"
    by (simp add: validarBlockchain_dos v)
  have d: "difficulty bloque_65 = 65"
    by (simp add: bloque_65_def)
  show ?thesis
    using d n l v c by (intro conjI)
qed

text \<open>
  Claim C4 as stated fails: with 65 required zeros, the append after the genesis block
  mines \<open>bloque_65\<close>; the search exhausts the ceiling, the hash of the block emitted does
  not meet the difficulty, and reading \<open>pow_incomplete\<close> from that block gives nothing.
\<close>

theorem pow_agotado_sin_pow_incomplete:
  "agregarBloque CONFIG_65 t_ejemplo (JObj []) estado_65 =
     Inr (calcularProofOfWork bloque_65,
          estado_65\<lparr>blockchain := [genesis_65, calcularProofOfWork bloque_65],
                    bloquesCreados := 1\<rparr>) \<and>
   nonces_probados bloque_65 = [0..<maxIteraciones] \<and>
   \<not> startsWith (hash (calcularProofOfWork bloque_65)) (repeat0 (difficulty bloque_65)) \<and>
   leer_propiedad (calcularProofOfWork bloque_65) (js ''pow_incomplete'') = None"
proof -
  have "\<not> startsWith (calcularHashBloque (bloque_65\<lparr>nonce := maxIteraciones - 1\<rparr>))
      (repeat0 (difficulty bloque_65))"
    using bloque_65_falla maxIteraciones_positivo by simp
  then have "nonces_probados bloque_65 = [0..<maxIteraciones] \<and>
      \<not> startsWith (hash (calcularProofOfWork bloque_65)) (repeat0 (difficulty bloque_65)) \<and>
      leer_propiedad (calcularProofOfWork bloque_65) (js ''pow_incomplete'') = None"
    by (simp add: bloque_65_agotado calcularProofOfWork_def nonces_probados_def
        propiedad_pow_incomplete)
  then show ?thesis using agregarBloque_65 by (intro conjI) simp_all
qed






section \<open>Validation\<close>

lemma validar_bucle_invalida:
  "validar_bucle c i = Invalida e k \<longleftrightarrow>
     i \<le> k \<and> k < length c \<and> violacion c k = Some e \<and> (\<forall>j. i \<le> j \<and> j < k \<longrightarrow> violacion c j = None)"
proof (induction c i rule: validar_bucle.induct)
  case (1 c i)
  show ?case
  proof (cases "i < length c")
    case False
    then show ?thesis by (subst validar_bucle.simps) auto
  next
    case i: True
    show ?thesis
    proof (cases "violacion c i")
      case None
      then have paso: "validar_bucle c i = validar_bucle c (i + 1)"
        using i by (subst validar_bucle.simps) (simp add: violacion_def)
      have hi: "validar_bucle c (i + 1) = Invalida e k \<longleftrightarrow>
          i + 1 \<le> k \<and> k < length c \<and> violacion c k = Some e \<and>
          (\<forall>j. i + 1 \<le> j \<and> j < k \<longrightarrow> violacion c j = None)"
        using i None by (intro "1.IH") (simp_all add: violacion_def)
      have "(\<forall>j. i \<le> j \<and> j < k \<longrightarrow> violacion c j = None) \<longleftrightarrow>
          (\<forall>j. i + 1 \<le> j \<and> j < k \<longrightarrow> violacion c j = None)"
        using None by (metis Suc_eq_plus1 Suc_leI le_neq_implies_less add_leD1 order_refl le_trans)
      moreover have "i \<le> k \<and> violacion c k = Some e \<longleftrightarrow> i + 1 \<le> k \<and> violacion c k = Some e"
        using None by (cases "k = i") auto
      ultimately show ?thesis unfolding paso hi by blast
    next
      case (Some e')
      then have "validar_bucle c i = Invalida e' i"
        using i by (subst validar_bucle.simps) (simp add: violacion_def)
      moreover have "(i \<le> k \<and> k < length c \<and> violacion c k = Some e \<and>
          (\<forall>j. i \<le> j \<and> j < k \<longrightarrow> violacion c j = None)) \<longleftrightarrow> (e = e' \<and> k = i)"
      proof (cases "k = i")
        case True
        then show ?thesis using Some i by auto
      next
        case False
        have "\<not> (i \<le> k \<and> (\<forall>j. i \<le> j \<and> j < k \<longrightarrow> violacion c j = None))"
        proof
          assume a: "i \<le> k \<and> (\<forall>j. i \<le> j \<and> j < k \<longrightarrow> violacion c j = None)"
          then have "i < k" using False by simp
          then have "violacion c i = None" using a by simp
          then show False using Some by simp
        qed
        then show ?thesis using False by blast
      qed
      ultimately show ?thesis by auto
    qed
  qed
qed

lemma validar_bucle_valida:
  "validar_bucle c i = Valida n \<longleftrightarrow>
     n = length c \<and> (\<forall>j. i \<le> j \<and> j < length c \<longrightarrow> violacion c j = None)"
proof (induction c i rule: validar_bucle.induct)
  case (1 c i)
  show ?case
  proof (cases "i < length c")
    case False
    then show ?thesis by (subst validar_bucle.simps) auto
  next
    case i: True
    show ?thesis
    proof (cases "violacion c i")
      case None
      then have paso: "validar_bucle c i = validar_bucle c (i + 1)"
        using i by (subst validar_bucle.simps) (simp add: violacion_def)
      have hi: "validar_bucle c (i + 1) = Valida n \<longleftrightarrow>
          n = length c \<and> (\<forall>j. i + 1 \<le> j \<and> j < length c \<longrightarrow> violacion c j = None)"
        using i None by (intro "1.IH") (simp_all add: violacion_def)
      have "(\<forall>j. i \<le> j \<and> j < length c \<longrightarrow> violacion c j = None) \<longleftrightarrow>
          (\<forall>j. i + 1 \<le> j \<and> j < length c \<longrightarrow> violacion c j = None)"
        using None by (metis Suc_eq_plus1 Suc_leI le_neq_implies_less add_leD1 order_refl le_trans)
      then show ?thesis unfolding paso hi by blast
    next
      case (Some e')
      then have "validar_bucle c i = Invalida e' i"
        using i by (subst validar_bucle.simps) (simp add: violacion_def)
      then show ?thesis using Some i by auto
    qed
  qed
qed

lemma validarBlockchain_caracterizacion:
  "(validarBlockchain c = Invalida e k \<longleftrightarrow>
      1 \<le> k \<and> k < length c \<and> violacion c k = Some e \<and>
      (\<forall>j. 1 \<le> j \<and> j < k \<longrightarrow> violacion c j = None)) \<and>
   (validarBlockchain c = Valida n \<longleftrightarrow>
      n = length c \<and> (\<forall>j. 1 \<le> j \<and> j < length c \<longrightarrow> violacion c j = None))"
  unfolding validarBlockchain_def
  using validar_bucle_invalida [of c 1 e k] validar_bucle_valida [of c 1 n] by simp

lemma validar_bloque_None:
  "validar_bloque a p = None \<longleftrightarrow>
     previousHash a = hash p \<and> hash a = calcularHashBloque a \<and>
     startsWith (hash a) (repeat0 (difficulty a))"
  by (simp add: validar_bloque_def)

lemma validar_bloque_Some:
  "validar_bloque a p = Some e \<longleftrightarrow>
     (case e of
        PreviousHashNoCoincide \<Rightarrow> previousHash a \<noteq> hash p
      | HashAlterado \<Rightarrow> previousHash a = hash p \<and> hash a \<noteq> calcularHashBloque a
      | ProofOfWorkInvalido \<Rightarrow>
          previousHash a = hash p \<and> hash a = calcularHashBloque a \<and>
          \<not> startsWith (hash a) (repeat0 (difficulty a)))"
  by (cases e) (auto simp: validar_bloque_def)

text \<open>
  Claim C2, as amended. \<open>validarBlockchain\<close> walks the blocks from position 1 in order
  and makes three checks on each, in this order: the block's \<open>previousHash\<close> is the hash
  stored in the block before it; its stored hash is the hash recomputed from its fields;
  its stored hash starts with as many zeros as its difficulty says. It stops at the first
  block that fails one. The result is invalid with error \<open>e\<close> at position \<open>k\<close> exactly
  when every block from position 1 to \<open>k - 1\<close> passes the three checks and \<open>e\<close> is the
  first check that the block at position \<open>k\<close> fails; it is valid, with the number of
  blocks, exactly when every block from position 1 on passes the three checks.
\<close>

theorem validarBlockchain_primera_violacion:
  "(validarBlockchain c = Invalida e k \<longleftrightarrow>
      1 \<le> k \<and> k < length c \<and>
      (case e of
         PreviousHashNoCoincide \<Rightarrow> previousHash (c ! k) \<noteq> hash (c ! (k - 1))
       | HashAlterado \<Rightarrow>
           previousHash (c ! k) = hash (c ! (k - 1)) \<and>
           hash (c ! k) \<noteq> calcularHashBloque (c ! k)
       | ProofOfWorkInvalido \<Rightarrow>
           previousHash (c ! k) = hash (c ! (k - 1)) \<and>
           hash (c ! k) = calcularHashBloque (c ! k) \<and>
           \<not> startsWith (hash (c ! k)) (repeat0 (difficulty (c ! k)))) \<and>
      (\<forall>j. 1 \<le> j \<and> j < k \<longrightarrow>
         previousHash (c ! j) = hash (c ! (j - 1)) \<and>
         hash (c ! j) = calcularHashBloque (c ! j) \<and>
         startsWith (hash (c ! j)) (repeat0 (difficulty (c ! j))))) \<and>
   (validarBlockchain c = Valida n \<longleftrightarrow>
      n = length c \<and>
      (\<forall>j. 1 \<le> j \<and> j < length c \<longrightarrow>
         previousHash (c ! j) = hash (c ! (j - 1)) \<and>
         hash (c ! j) = calcularHashBloque (c ! j) \<and>
         startsWith (hash (c ! j)) (repeat0 (difficulty (c ! j)))))"
  using validarBlockchain_caracterizacion [of c e k n]
  by (simp only: violacion_def validar_bloque_None validar_bloque_Some)

lemma calcularHashBloque_longitud: "length (calcularHashBloque b) = 64"
  by (simp add: calcularHashBloque_def sha256Sync_longitud)

lemma hash_no_es_corto: "length s < 64 \<Longrightarrow> s \<noteq> calcularHashBloque b"
  using calcularHashBloque_longitud [of b] by auto

text \<open>
  Claim C2 as stated fails: in \<open>cadena_alterada\<close> the stored hash of the block at
  position 1 is not the hash of its fields and the block at position 2 does not link to
  the block before it, yet the result names position 1 only.
\<close>

theorem validarBlockchain_una_sola_violacion:
  "hash (cadena_alterada ! 1) \<noteq> calcularHashBloque (cadena_alterada ! 1) \<and>
   previousHash (cadena_alterada ! 2) \<noteq> hash (cadena_alterada ! 1) \<and>
   validarBlockchain cadena_alterada = Invalida HashAlterado 1"
proof -
  have a: "hash (cadena_alterada ! 1) \<noteq> calcularHashBloque (cadena_alterada ! 1)"
    by (rule hash_no_es_corto) (simp add: cadena_alterada_def js_def)
  have b: "previousHash (cadena_alterada ! 2) \<noteq> hash (cadena_alterada ! 1)"
    by (simp add: cadena_alterada_def js_def)
  have l: "previousHash (cadena_alterada ! 1) = hash (cadena_alterada ! 0)"
    by (simp add: cadena_alterada_def)
  have "validar_bloque (cadena_alterada ! 1) (cadena_alterada ! (1 - 1)) = Some HashAlterado"
    using a l by (simp add: validar_bloque_Some)
  moreover have "1 < length cadena_alterada"
    by (simp add: cadena_alterada_def)
  ultimately have "validar_bucle cadena_alterada 1 = Invalida HashAlterado 1"
    by (subst validar_bucle.simps) simp
  then show ?thesis using a b by (simp add: validarBlockchain_def)
qed

lemma calcularProofOfWork_valido:
  "difficulty b \<le> 56 \<Longrightarrow> previousHash b = hash p \<Longrightarrow>
   validar_bloque (calcularProofOfWork b) p = None"
  by (simp add: calcularProofOfWork_def pow_dificultad_baja validar_bloque_def
      calcularHashBloque_sin_hash)
     (simp add: calcularHashBloque_def startsWith_sha256Sync)

lemma bloque_1_pasa:
  "previousHash bloque_1 = hash genesis_ejemplo \<and>
   hash bloque_1 = calcularHashBloque bloque_1 \<and>
   startsWith (hash bloque_1) (repeat0 (difficulty bloque_1))"
proof -
  have "validar_bloque bloque_1 genesis_ejemplo = None"
    unfolding bloque_1_def by (rule calcularProofOfWork_valido) simp_all
  then show ?thesis using validar_bloque_None [of bloque_1 genesis_ejemplo] by blast
qed

lemma hash_bloque_1: "length (hash bloque_1) = 64"
  using bloque_1_pasa calcularHashBloque_longitud [of bloque_1] by simp

lemma bloque_sin_pow_falla:
  "previousHash bloque_sin_pow = hash bloque_1 \<and>
   hash bloque_sin_pow = calcularHashBloque bloque_sin_pow \<and>
   \<not> startsWith (hash bloque_sin_pow) (repeat0 (difficulty bloque_sin_pow))"
  by (simp add: bloque_sin_pow_def Let_def calcularHashBloque_def bloqueString_def
      no_startsWith_largo)

lemma segundo_pasa:
  "c ! 0 = genesis_ejemplo \<Longrightarrow> c ! 1 = bloque_1 \<Longrightarrow>
   \<forall>j. 1 \<le> j \<and> j < 2 \<longrightarrow>
     previousHash (c ! j) = hash (c ! (j - 1)) \<and>
     hash (c ! j) = calcularHashBloque (c ! j) \<and>
     startsWith (hash (c ! j)) (repeat0 (difficulty (c ! j)))"
proof (intro allI impI)
  fix j :: nat
  assume c: "c ! 0 = genesis_ejemplo" "c ! 1 = bloque_1" and "1 \<le> j \<and> j < 2"
  then have "j = 1" by simp
  then have x: "c ! j = bloque_1" and y: "c ! (j - 1) = genesis_ejemplo"
    using c by simp_all
  show "previousHash (c ! j) = hash (c ! (j - 1)) \<and>
     hash (c ! j) = calcularHashBloque (c ! j) \<and>
     startsWith (hash (c ! j)) (repeat0 (difficulty (c ! j)))"
    unfolding x y by (rule bloque_1_pasa)
qed

text \<open>
  Claim C2, as amended, at four chains. In each the block at position 1 passes the three
  checks. The chain of two blocks is valid. The chains of three blocks are rejected at
  position 2, each for the first check that its last block fails: the link, the
  recomputed hash, the leading zeros.
\<close>

theorem validarBlockchain_primera_violacion_witness:
  "validarBlockchain cadena_sana = Valida 2 \<and>
   validarBlockchain cadena_rota = Invalida PreviousHashNoCoincide 2 \<and>
   validarBlockchain cadena_retocada = Invalida HashAlterado 2 \<and>
   validarBlockchain cadena_sin_pow = Invalida ProofOfWorkInvalido 2"
proof -
  have uno: "(1::nat) \<le> 2" by simp
  have sana: "validarBlockchain cadena_sana = Valida 2"
  proof -
    have l: "length cadena_sana = 2" by (simp add: cadena_sana_def)
    have "\<forall>j. 1 \<le> j \<and> j < length cadena_sana \<longrightarrow>
        previousHash (cadena_sana ! j) = hash (cadena_sana ! (j - 1)) \<and>
        hash (cadena_sana ! j) = calcularHashBloque (cadena_sana ! j) \<and>
        startsWith (hash (cadena_sana ! j)) (repeat0 (difficulty (cadena_sana ! j)))"
      unfolding l by (rule segundo_pasa) (simp_all add: cadena_sana_def)
    then have "2 = length cadena_sana \<and>
        (\<forall>j. 1 \<le> j \<and> j < length cadena_sana \<longrightarrow>
        previousHash (cadena_sana ! j) = hash (cadena_sana ! (j - 1)) \<and>
        hash (cadena_sana ! j) = calcularHashBloque (cadena_sana ! j) \<and>
        startsWith (hash (cadena_sana ! j)) (repeat0 (difficulty (cadena_sana ! j))))"
      using l [symmetric] by (intro conjI)
    then show ?thesis
      by (rule validarBlockchain_primera_violacion
        [of cadena_sana PreviousHashNoCoincide 0 2, THEN conjunct2, THEN iffD2])
  qed
  have rota: "validarBlockchain cadena_rota = Invalida PreviousHashNoCoincide 2"
  proof -
    have l: "2 < length cadena_rota" by (simp add: cadena_rota_def)
    have p: "\<forall>j. 1 \<le> j \<and> j < 2 \<longrightarrow>
        previousHash (cadena_rota ! j) = hash (cadena_rota ! (j - 1)) \<and>
        hash (cadena_rota ! j) = calcularHashBloque (cadena_rota ! j) \<and>
        startsWith (hash (cadena_rota ! j)) (repeat0 (difficulty (cadena_rota ! j)))"
      by (rule segundo_pasa) (simp_all add: cadena_rota_def)
    have "js ''dd'' \<noteq> calcularHashBloque bloque_1"
      by (rule hash_no_es_corto) (simp add: js_def)
    then have "js ''dd'' \<noteq> hash bloque_1"
      using bloque_1_pasa by metis
    then have f: "previousHash (cadena_rota ! 2) \<noteq> hash (cadena_rota ! (2 - 1))"
      by (simp add: cadena_rota_def)
    show ?thesis
      by (rule validarBlockchain_primera_violacion
            [of cadena_rota PreviousHashNoCoincide 2 0, THEN conjunct1, unfolded error_validacion.case, THEN iffD2])
         (intro conjI uno l f p)
  qed
  have retocada: "validarBlockchain cadena_retocada = Invalida HashAlterado 2"
  proof -
    have l: "2 < length cadena_retocada" by (simp add: cadena_retocada_def)
    have p: "\<forall>j. 1 \<le> j \<and> j < 2 \<longrightarrow>
        previousHash (cadena_retocada ! j) = hash (cadena_retocada ! (j - 1)) \<and>
        hash (cadena_retocada ! j) = calcularHashBloque (cadena_retocada ! j) \<and>
        startsWith (hash (cadena_retocada ! j)) (repeat0 (difficulty (cadena_retocada ! j)))"
      by (rule segundo_pasa) (simp_all add: cadena_retocada_def)
    have e: "previousHash (cadena_retocada ! 2) = hash (cadena_retocada ! (2 - 1))"
      by (simp add: cadena_retocada_def)
    have f: "hash (cadena_retocada ! 2) \<noteq> calcularHashBloque (cadena_retocada ! 2)"
      by (rule hash_no_es_corto) (simp add: cadena_retocada_def js_def)
    show ?thesis
      by (rule validarBlockchain_primera_violacion
            [of cadena_retocada HashAlterado 2 0, THEN conjunct1, unfolded error_validacion.case, THEN iffD2])
         (intro conjI uno l e f p)
  qed
  have sin_pow: "validarBlockchain cadena_sin_pow = Invalida ProofOfWorkInvalido 2"
  proof -
    have l: "2 < length cadena_sin_pow" by (simp add: cadena_sin_pow_def)
    have p: "\<forall>j. 1 \<le> j \<and> j < 2 \<longrightarrow>
        previousHash (cadena_sin_pow ! j) = hash (cadena_sin_pow ! (j - 1)) \<and>
        hash (cadena_sin_pow ! j) = calcularHashBloque (cadena_sin_pow ! j) \<and>
        startsWith (hash (cadena_sin_pow ! j)) (repeat0 (difficulty (cadena_sin_pow ! j)))"
      by (rule segundo_pasa) (simp_all add: cadena_sin_pow_def)
    have x: "cadena_sin_pow ! 2 = bloque_sin_pow" and y: "cadena_sin_pow ! (2 - 1) = bloque_1"
      by (simp_all add: cadena_sin_pow_def)
    have f: "previousHash (cadena_sin_pow ! 2) = hash (cadena_sin_pow ! (2 - 1)) \<and>
        hash (cadena_sin_pow ! 2) = calcularHashBloque (cadena_sin_pow ! 2) \<and>
        \<not> startsWith (hash (cadena_sin_pow ! 2)) (repeat0 (difficulty (cadena_sin_pow ! 2)))"
      unfolding x y by (rule bloque_sin_pow_falla)
    show ?thesis
      by (rule validarBlockchain_primera_violacion
            [of cadena_sin_pow ProofOfWorkInvalido 2 0, THEN conjunct1, unfolded error_validacion.case, THEN iffD2])
         (intro conjI uno l f p)
  qed
  show ?thesis using sana rota retocada sin_pow by (intro conjI)
qed

lemma validar_bloque_anterior:
  "hash p' = hash p \<Longrightarrow> validar_bloque a p' = validar_bloque a p"
  by (simp add: validar_bloque_def)

lemma violacion_cabeza:
  "hash g' = hash g \<Longrightarrow> 1 \<le> j \<Longrightarrow> violacion (g' # resto) j = violacion (g # resto) j"
proof (cases j)
  case 0
  assume "1 \<le> j"
  then show ?thesis using 0 by simp
next
  case (Suc m)
  assume h: "hash g' = hash g"
  show ?thesis
  proof (cases m)
    case 0
    then show ?thesis
      using Suc validar_bloque_anterior [OF h, of "resto ! 0"] by (simp add: violacion_def)
  next
    case (Suc m')
    then show ?thesis using \<open>j = Suc m\<close> by (simp add: violacion_def)
  qed
qed

lemma validarBlockchain_cabeza:
  "hash g' = hash g \<Longrightarrow> validarBlockchain (g' # resto) = validarBlockchain (g # resto)"
proof -
  assume h: "hash g' = hash g"
  have v: "\<And>j. 1 \<le> j \<Longrightarrow> violacion (g' # resto) j = violacion (g # resto) j"
    using h by (rule violacion_cabeza)
  show ?thesis
  proof (cases "validarBlockchain (g # resto)")
    case (Valida n)
    then have "n = length (g # resto) \<and>
        (\<forall>j. 1 \<le> j \<and> j < length (g # resto) \<longrightarrow> violacion (g # resto) j = None)"
      using validarBlockchain_caracterizacion [of "g # resto" undefined 0 n] by blast
    then have "n = length (g' # resto) \<and>
        (\<forall>j. 1 \<le> j \<and> j < length (g' # resto) \<longrightarrow> violacion (g' # resto) j = None)"
      using v by simp
    then have "validarBlockchain (g' # resto) = Valida n"
      using validarBlockchain_caracterizacion [of "g' # resto" undefined 0 n] by blast
    then show ?thesis using Valida by simp
  next
    case (Invalida e k)
    then have "1 \<le> k \<and> k < length (g # resto) \<and> violacion (g # resto) k = Some e \<and>
        (\<forall>j. 1 \<le> j \<and> j < k \<longrightarrow> violacion (g # resto) j = None)"
      using validarBlockchain_caracterizacion [of "g # resto" e k 0] by blast
    then have "1 \<le> k \<and> k < length (g' # resto) \<and> violacion (g' # resto) k = Some e \<and>
        (\<forall>j. 1 \<le> j \<and> j < k \<longrightarrow> violacion (g' # resto) j = None)"
      using v by simp
    then have "validarBlockchain (g' # resto) = Invalida e k"
      using validarBlockchain_caracterizacion [of "g' # resto" e k 0] by blast
    then show ?thesis using Invalida by simp
  qed
qed

text \<open>
  Claim C10. Validation never examines the genesis block itself: changing its timestamp,
  data, nonce and difficulty while its stored hash stays the same leaves the result of
  \<open>validarBlockchain\<close> unchanged, whatever the rest of the chain is.
\<close>

theorem validarBlockchain_ignora_genesis:
  "validarBlockchain (g\<lparr>timestamp := t, data := d, nonce := n, difficulty := k\<rparr> # resto)
     = validarBlockchain (g # resto)"
  by (rule validarBlockchain_cabeza) simp


section \<open>Genesis and append\<close>

lemma validarBlockchain_un_bloque: "validarBlockchain [g] = Valida 1"
  unfolding validarBlockchain_def by (subst validar_bucle.simps) simp

text \<open>
  Claim C7. Starting the system on an empty chain leaves exactly one block, the genesis
  block, whose \<open>previousHash\<close> is 64 times the character \<open>0\<close>, and validation of that chain
  succeeds, counting one block.
\<close>

theorem iniciar_crea_genesis:
  "blockchain st = [] \<Longrightarrow> \<not> iniciado st \<Longrightarrow>
   blockchain (iniciar cfg ahora st) = [crearBloqueGenesis cfg ahora] \<and>
   length (blockchain (iniciar cfg ahora st)) = 1 \<and>
   previousHash (crearBloqueGenesis cfg ahora) = replicate 64 cero \<and>
   validarBlockchain (blockchain (iniciar cfg ahora st)) = Valida 1"
  by (simp add: iniciar_def Let_def validarBlockchain_un_bloque crearBloqueGenesis_def repeat0_def)

text \<open>
  Claim C7 at the initial state and the configuration of the script.
\<close>

theorem iniciar_crea_genesis_witness:
  "blockchain ESTADO_inicial = [] \<and> \<not> iniciado ESTADO_inicial \<and>
   blockchain (iniciar CONFIG t_ejemplo ESTADO_inicial) = [crearBloqueGenesis CONFIG t_ejemplo] \<and>
   length (blockchain (iniciar CONFIG t_ejemplo ESTADO_inicial)) = 1 \<and>
   previousHash (crearBloqueGenesis CONFIG t_ejemplo) = replicate 64 cero \<and>
   validarBlockchain (blockchain (iniciar CONFIG t_ejemplo ESTADO_inicial)) = Valida 1"
proof -
  have a: "blockchain ESTADO_inicial = []" and b: "\<not> iniciado ESTADO_inicial"
    by (simp_all add: ESTADO_inicial_def)
  show ?thesis using a b iniciar_crea_genesis [OF a b, of CONFIG t_ejemplo] by blast
qed

text \<open>
  Claim C8, as amended. On a chain that has at least one block, \<open>agregarBloque\<close> returns a
  block and a state whose chain is the old chain followed by that block: one block longer,
  with every earlier block unchanged in value and position. On an empty chain the call
  raises a TypeError and no block is added.
\<close>

theorem agregarBloque_solo_agrega:
  "(blockchain st = [] \<longrightarrow> agregarBloque cfg ahora d st = Inl TypeError) \<and>
   (blockchain st \<noteq> [] \<longrightarrow>
      (\<exists>b st'. agregarBloque cfg ahora d st = Inr (b, st') \<and>
         blockchain st' = blockchain st @ [b] \<and>
         length (blockchain st') = length (blockchain st) + 1 \<and>
         take (length (blockchain st)) (blockchain st') = blockchain st \<and>
         (\<forall>i < length (blockchain st). blockchain st' ! i = blockchain st ! i)))"
  by (simp add: agregarBloque_def Let_def nth_append)

lemma estado_0_no_vacio: "blockchain estado_0 \<noteq> []"
  by (simp add: estado_0_def iniciar_def ESTADO_inicial_def Let_def)

lemma ESTADO_inicial_sin_bloques: "blockchain ESTADO_inicial = []"
  by (simp add: ESTADO_inicial_def)

text \<open>
  Claim C8, as amended, at the initial state of the script, whose chain is empty, and at
  the chain of a freshly started system.
\<close>

theorem agregarBloque_solo_agrega_witness:
  "agregarBloque CONFIG t_ejemplo (JObj []) ESTADO_inicial = Inl TypeError \<and>
   (\<exists>b st'. agregarBloque CONFIG t_ejemplo (JObj []) estado_0 = Inr (b, st') \<and>
      blockchain st' = blockchain estado_0 @ [b] \<and>
      length (blockchain st') = length (blockchain estado_0) + 1 \<and>
      take (length (blockchain estado_0)) (blockchain st') = blockchain estado_0 \<and>
      (\<forall>i < length (blockchain estado_0). blockchain st' ! i = blockchain estado_0 ! i))"
proof (intro conjI)
  show "agregarBloque CONFIG t_ejemplo (JObj []) ESTADO_inicial = Inl TypeError"
    by (rule agregarBloque_solo_agrega [THEN conjunct1, THEN mp])
       (rule ESTADO_inicial_sin_bloques)
  show "\<exists>b st'. agregarBloque CONFIG t_ejemplo (JObj []) estado_0 = Inr (b, st') \<and>
      blockchain st' = blockchain estado_0 @ [b] \<and>
      length (blockchain st') = length (blockchain estado_0) + 1 \<and>
      take (length (blockchain estado_0)) (blockchain st') = blockchain estado_0 \<and>
      (\<forall>i < length (blockchain estado_0). blockchain st' ! i = blockchain estado_0 ! i)"
    by (rule agregarBloque_solo_agrega [THEN conjunct2, THEN mp])
       (rule estado_0_no_vacio)
qed

text \<open>
  Claim C8 as stated fails: the chain of the initial state is empty, and an append to it
  raises a TypeError instead of giving a chain with one new block.
\<close>

theorem agregarBloque_cadena_vacia:
  "blockchain ESTADO_inicial = [] \<and>
   agregarBloque CONFIG t_ejemplo (JObj []) ESTADO_inicial = Inl TypeError"
  by (simp add: agregarBloque_def ESTADO_inicial_def)

lemma agregarBloque_index:
  "blockchain st \<noteq> [] \<Longrightarrow>
   \<exists>b st'. agregarBloque cfg ahora d st = Inr (b, st') \<and>
     blockchain st' = blockchain st @ [b] \<and> index b = length (blockchain st)"
  by (simp add: agregarBloque_def Let_def calcularProofOfWork_index)

lemma agregar_todos_indices:
  "blockchain st \<noteq> [] \<Longrightarrow> map index (blockchain st) = [0..<length (blockchain st)] \<Longrightarrow>
   \<exists>st'. agregar_todos cfg ps st = Inr st' \<and>
     map index (blockchain st') = [0..<length (blockchain st) + length ps]"
proof (induction ps arbitrary: st)
  case Nil
  then show ?case by simp
next
  case (Cons p ps)
  obtain ahora d where p: "p = (ahora, d)" by (cases p)
  obtain b st1 where a: "agregarBloque cfg ahora d st = Inr (b, st1)"
    and c: "blockchain st1 = blockchain st @ [b]" and i: "index b = length (blockchain st)"
    using agregarBloque_index [OF Cons.prems(1)] by blast
  have "blockchain st1 \<noteq> []" using c by simp
  moreover have "map index (blockchain st1) = [0..<length (blockchain st1)]"
    using c i Cons.prems(2) by simp
  ultimately obtain st' where "agregar_todos cfg ps st1 = Inr st'"
    and "map index (blockchain st') = [0..<length (blockchain st1) + length ps]"
    using Cons.IH by blast
  then show ?case using p a c by simp
qed

lemma is_prime_0: "\<not> is_prime 0"
  by (simp add: is_prime_def)

lemma iniciar_vacia:
  "blockchain st = [] \<Longrightarrow> \<not> iniciado st \<Longrightarrow>
   blockchain (iniciar cfg ahora st) = [crearBloqueGenesis cfg ahora]"
  by (simp add: iniciar_def Let_def)

lemma crearBloqueGenesis_index: "index (crearBloqueGenesis cfg ahora) = 0"
  by (simp add: crearBloqueGenesis_def Let_def)

text \<open>
  Claim C1, as amended. After the genesis block is created on an empty ledger, every run of
  appends succeeds, and the identifier of the block at position \<open>i\<close> of the resulting
  chain is \<open>i\<close>: the identifiers are 0, 1, 2, \<dots>, strictly increasing, and the first of
  them is not prime.
\<close>

theorem indices_consecutivos:
  "blockchain st = [] \<Longrightarrow> \<not> iniciado st \<Longrightarrow>
   \<exists>st'. agregar_todos cfg ps (iniciar cfg ahora st) = Inr st' \<and>
     map index (blockchain st') = [0..<Suc (length ps)] \<and>
     sorted_wrt (<) (map index (blockchain st')) \<and>
     \<not> is_prime (index (blockchain st' ! 0))"
proof -
  assume v: "blockchain st = []" and n: "\<not> iniciado st"
  let ?s = "iniciar cfg ahora st"
  have g: "blockchain ?s = [crearBloqueGenesis cfg ahora]" using v n by (rule iniciar_vacia)
  then have "blockchain ?s \<noteq> []" and "map index (blockchain ?s) = [0..<length (blockchain ?s)]"
    by (simp_all add: crearBloqueGenesis_index)
  then obtain st' where a: "agregar_todos cfg ps ?s = Inr st'"
    and m: "map index (blockchain st') = [0..<length (blockchain ?s) + length ps]"
    using agregar_todos_indices by blast
  have m': "map index (blockchain st') = [0..<Suc (length ps)]" using m g by simp
  have s: "sorted_wrt (<) (map index (blockchain st'))" unfolding m' by (rule sorted_wrt_upt)
  have "length (blockchain st') = Suc (length ps)" using m' by (metis length_map length_upt diff_zero)
  then have "index (blockchain st' ! 0) = map index (blockchain st') ! 0" by simp
  also have "\<dots> = 0" unfolding m' by (simp del: upt_Suc)
  finally have "\<not> is_prime (index (blockchain st' ! 0))" using is_prime_0 by simp
  then show ?thesis using a m' s by blast
qed

lemma ESTADO_inicial_vacio: "blockchain ESTADO_inicial = []"
  by (simp add: ESTADO_inicial_def)

lemma ESTADO_inicial_no_iniciado: "\<not> iniciado ESTADO_inicial"
  by (simp add: ESTADO_inicial_def)

text \<open>
  Claim C1, as amended, at the initial state of the script and two appends.
\<close>

theorem indices_consecutivos_witness:
  "blockchain ESTADO_inicial = [] \<and> \<not> iniciado ESTADO_inicial \<and>
   (\<exists>st'. agregar_todos CONFIG [(t_ejemplo, JObj []), (t_ejemplo, JNull)]
            (iniciar CONFIG t_ejemplo ESTADO_inicial) = Inr st' \<and>
      map index (blockchain st') = [0, 1, 2])"
proof -
  obtain st' where "agregar_todos CONFIG [(t_ejemplo, JObj []), (t_ejemplo, JNull)]
          (iniciar CONFIG t_ejemplo ESTADO_inicial) = Inr st'"
    and "map index (blockchain st') = [0..<Suc (length [(t_ejemplo, JObj []), (t_ejemplo, JNull)])]"
    using indices_consecutivos [OF ESTADO_inicial_vacio ESTADO_inicial_no_iniciado,
        of CONFIG "[(t_ejemplo, JObj []), (t_ejemplo, JNull)]" t_ejemplo]
    by blast
  moreover have "[0..<Suc (length [(t_ejemplo, JObj []), (t_ejemplo, JNull)])] = [0, 1, 2]"
    by (simp add: upt_rec)
  ultimately show ?thesis
    using ESTADO_inicial_vacio ESTADO_inicial_no_iniciado by auto
qed

text \<open>
  Claim C1 as stated fails: the chain of a freshly started system holds the genesis block,
  whose identifier is 0, and 0 is not prime.
\<close>

theorem indice_genesis_no_primo:
  "blockchain (iniciar CONFIG t_ejemplo ESTADO_inicial) = [genesis_ejemplo] \<and>
   index genesis_ejemplo = 0 \<and> \<not> is_prime (index genesis_ejemplo)"
  by (simp add: iniciar_vacia ESTADO_inicial_vacio ESTADO_inicial_no_iniciado genesis_ejemplo_def
      crearBloqueGenesis_index is_prime_0)


section \<open>The hash registry of the downloader\<close>

lemma descargar_registro:
  "hashRegistry (fst (descargarDocumento H cfg doc ex ms (OnLoad blob) rl st)) =
     asignar (generarNombreArchivo doc ex ms)
       \<lparr> e_hash = H blob, e_tamano = length blob, e_url = d_url doc,
         e_expediente = numero ex, e_timestamp = t_registro rl \<rparr>
       (hashRegistry st)"
  by (simp add: descargarDocumento_def Let_def agregarBloque_def)

lemma descargar_hash:
  "snd (descargarDocumento H cfg doc ex ms (OnLoad blob) rl st) = Inr d \<Longrightarrow> r_hash d = H blob"
  by (auto simp: descargarDocumento_def Let_def agregarBloque_def split: if_splits)

lemma map_of_asignar:
  "map_of (asignar k v kvs) k' = (if k' = k then Some v else map_of kvs k')"
  by (induction kvs) auto

lemma claves_asignar:
  "map fst (asignar k v kvs) =
     (if k \<in> fst ` set kvs then map fst kvs else map fst kvs @ [k])"
proof (induction kvs)
  case Nil
  then show ?case by simp
next
  case (Cons p kvs)
  obtain k' v' where p: "p = (k', v')" by (cases p)
  show ?case
  proof (cases "k' = k")
    case True
    then show ?thesis using p by simp
  next
    case False
    then show ?thesis using p Cons.IH by auto
  qed
qed

lemma length_asignar:
  "length (asignar k v kvs) = (if k \<in> fst ` set kvs then length kvs else Suc (length kvs))"
  using claves_asignar [of k v kvs, THEN arg_cong, of length] by (simp split: if_splits)

lemma nombre_a: "generarNombreArchivo doc_a exped_ejemplo 1000 = js ''1_2025_ENGROSE_1000.pdf''"
  by (simp add: generarNombreArchivo_def doc_a_def exped_ejemplo_def Let_def js_def
      reemplazar_barras_espacios_def reemplazar_espacios_def es_espacio_def
      toString10.simps digito_def)

lemma nombre_b: "generarNombreArchivo doc_b exped_ejemplo 2500 = js ''1_2025_ENGROSE_2500.pdf''"
  by (simp add: generarNombreArchivo_def doc_b_def exped_ejemplo_def Let_def js_def
      reemplazar_barras_espacios_def reemplazar_espacios_def es_espacio_def
      toString10.simps digito_def)

lemma registro_estado_0: "hashRegistry estado_0 = []"
  by (simp add: estado_0_def iniciar_def ESTADO_inicial_def Let_def)

lemma nombres_distintos:
  "js ''1_2025_ENGROSE_1000.pdf'' \<noteq> js ''1_2025_ENGROSE_2500.pdf''"
  by (simp add: js_def)

lemma registro_estado_b:
  "hashRegistry estado_b =
     [(js ''1_2025_ENGROSE_1000.pdf'',
       \<lparr> e_hash = digest_de_prueba blob_ejemplo, e_tamano = length blob_ejemplo,
         e_url = d_url doc_a, e_expediente = numero exped_ejemplo,
         e_timestamp = t_registro reloj_ejemplo \<rparr>),
      (js ''1_2025_ENGROSE_2500.pdf'',
       \<lparr> e_hash = digest_de_prueba blob_ejemplo, e_tamano = length blob_ejemplo,
         e_url = d_url doc_b, e_expediente = numero exped_ejemplo,
         e_timestamp = t_registro reloj_ejemplo \<rparr>)]"
  using nombres_distintos
  by (simp add: estado_b_def estado_a_def descargar_registro nombre_a nombre_b registro_estado_0)

text \<open>
  Claim C6 as stated fails: after the same bytes have been downloaded from two locators,
  the registry holds two entries, one per file name, both with the same hash.
\<close>

theorem dos_entradas_para_un_contenido:
  "map fst (hashRegistry estado_b) =
     [js ''1_2025_ENGROSE_1000.pdf'', js ''1_2025_ENGROSE_2500.pdf''] \<and>
   e_hash (snd (hashRegistry estado_b ! 0)) = digest_de_prueba blob_ejemplo \<and>
   e_hash (snd (hashRegistry estado_b ! 1)) = digest_de_prueba blob_ejemplo \<and>
   d_url doc_a \<noteq> d_url doc_b \<and>
   length (hashRegistry estado_b) = 2"
  by (simp add: registro_estado_b) (simp add: doc_a_def doc_b_def js_def)

text \<open>
  Claim C6, as amended. Two downloads of the same bytes record the same hash, whatever the
  digest function is. The registry is keyed by the generated file name, not by the hash:
  after the two downloads both names map to an entry with that hash; when the two names
  differ and are new, the registry has two more entries; when they coincide, the second
  download replaces the entry of the first.
\<close>

theorem registro_por_nombre_de_archivo:
  "st1 = fst (descargarDocumento H cfg doc1 ex1 ms1 (OnLoad blob) rl1 st) \<Longrightarrow>
   st2 = fst (descargarDocumento H cfg doc2 ex2 ms2 (OnLoad blob) rl2 st1) \<Longrightarrow>
   n1 = generarNombreArchivo doc1 ex1 ms1 \<Longrightarrow>
   n2 = generarNombreArchivo doc2 ex2 ms2 \<Longrightarrow>
   map_option e_hash (map_of (hashRegistry st2) n1) = Some (H blob) \<and>
   map_option e_hash (map_of (hashRegistry st2) n2) = Some (H blob) \<and>
   (\<forall>d1 d2. snd (descargarDocumento H cfg doc1 ex1 ms1 (OnLoad blob) rl1 st) = Inr d1 \<and>
            snd (descargarDocumento H cfg doc2 ex2 ms2 (OnLoad blob) rl2 st1) = Inr d2
            \<longrightarrow> r_hash d1 = r_hash d2) \<and>
   (n1 \<noteq> n2 \<and> n1 \<notin> fst ` set (hashRegistry st) \<and> n2 \<notin> fst ` set (hashRegistry st)
      \<longrightarrow> length (hashRegistry st2) = length (hashRegistry st) + 2) \<and>
   (n1 = n2 \<and> n1 \<notin> fst ` set (hashRegistry st)
      \<longrightarrow> length (hashRegistry st2) = length (hashRegistry st) + 1)"
proof -
  assume s1: "st1 = fst (descargarDocumento H cfg doc1 ex1 ms1 (OnLoad blob) rl1 st)"
    and s2: "st2 = fst (descargarDocumento H cfg doc2 ex2 ms2 (OnLoad blob) rl2 st1)"
    and n1: "n1 = generarNombreArchivo doc1 ex1 ms1"
    and n2: "n2 = generarNombreArchivo doc2 ex2 ms2"
  let ?v1 = "\<lparr> e_hash = H blob, e_tamano = length blob, e_url = d_url doc1,
                e_expediente = numero ex1, e_timestamp = t_registro rl1 \<rparr>"
  let ?v2 = "\<lparr> e_hash = H blob, e_tamano = length blob, e_url = d_url doc2,
                e_expediente = numero ex2, e_timestamp = t_registro rl2 \<rparr>"
  have r1: "hashRegistry st1 = asignar n1 ?v1 (hashRegistry st)"
    unfolding s1 n1 by (rule descargar_registro)
  have r2: "hashRegistry st2 = asignar n2 ?v2 (asignar n1 ?v1 (hashRegistry st))"
    unfolding s2 n2 r1 [symmetric] by (rule descargar_registro)
  have a: "map_option e_hash (map_of (hashRegistry st2) n1) = Some (H blob)"
    by (simp add: r2 map_of_asignar)
  have b: "map_option e_hash (map_of (hashRegistry st2) n2) = Some (H blob)"
    by (simp add: r2 map_of_asignar)
  have c: "\<forall>d1 d2. snd (descargarDocumento H cfg doc1 ex1 ms1 (OnLoad blob) rl1 st) = Inr d1 \<and>
            snd (descargarDocumento H cfg doc2 ex2 ms2 (OnLoad blob) rl2 st1) = Inr d2
            \<longrightarrow> r_hash d1 = r_hash d2"
    using descargar_hash by metis
  have k1: "fst ` set (asignar n1 ?v1 (hashRegistry st)) = insert n1 (fst ` set (hashRegistry st))"
    using claves_asignar [of n1 ?v1 "hashRegistry st", THEN arg_cong, of set] by (auto split: if_splits)
  have d: "n1 \<noteq> n2 \<and> n1 \<notin> fst ` set (hashRegistry st) \<and> n2 \<notin> fst ` set (hashRegistry st)
      \<longrightarrow> length (hashRegistry st2) = length (hashRegistry st) + 2"
    by (simp add: r2 length_asignar k1)
  have e: "n1 = n2 \<and> n1 \<notin> fst ` set (hashRegistry st)
      \<longrightarrow> length (hashRegistry st2) = length (hashRegistry st) + 1"
  proof (intro impI, elim conjE)
    assume eq: "n1 = n2" and f: "n1 \<notin> fst ` set (hashRegistry st)"
    have "n2 \<in> fst ` set (asignar n1 ?v1 (hashRegistry st))"
      unfolding k1 using eq by simp
    then have "length (hashRegistry st2) = length (asignar n1 ?v1 (hashRegistry st))"
      unfolding r2 by (simp only: length_asignar if_True)
    also have "\<dots> = Suc (length (hashRegistry st))"
      using f by (simp only: length_asignar if_False)
    finally show "length (hashRegistry st2) = length (hashRegistry st) + 1" by simp
  qed
  show ?thesis using a b c d e by (intro conjI)
qed

text \<open>
  Claim C6, as amended, at the two example downloads.
\<close>

theorem registro_por_nombre_de_archivo_witness:
  "map_option e_hash (map_of (hashRegistry estado_b) (js ''1_2025_ENGROSE_1000.pdf''))
     = Some (digest_de_prueba blob_ejemplo) \<and>
   map_option e_hash (map_of (hashRegistry estado_b) (js ''1_2025_ENGROSE_2500.pdf''))
     = Some (digest_de_prueba blob_ejemplo) \<and>
   length (hashRegistry estado_b) = length (hashRegistry estado_0) + 2"
proof -
  note t = registro_por_nombre_de_archivo [OF estado_a_def estado_b_def nombre_a [symmetric]
      nombre_b [symmetric]]
  have "js ''1_2025_ENGROSE_1000.pdf'' \<notin> fst ` set (hashRegistry estado_0)"
    and "js ''1_2025_ENGROSE_2500.pdf'' \<notin> fst ` set (hashRegistry estado_0)"
    by (simp_all add: registro_estado_0)
  then have "length (hashRegistry estado_b) = length (hashRegistry estado_0) + 2"
    using t nombres_distintos by blast
  then show ?thesis using t by blast
qed

end
